theory Spec2Isabelle
  imports Main "HOL-Library.AList" "HOL-Library.Sublist"
begin

section \<open>The approved-secrets engine of vault-plugins\<close>

text \<open>
  A shallow embedding of \<^verbatim>\<open>secret/approved-secrets\<close>: the storage accessor
  (\<^verbatim>\<open>atomic_storage_accessor.go\<close>), the role registry (\<^verbatim>\<open>path_roles.go\<close>), the
  lease hooks of issued secrets and the Vault client helper (\<^verbatim>\<open>path_soll_ist.go\<close>) and
  the periodic token renewer (\<^verbatim>\<open>backend.go\<close>). Go's \<^verbatim>\<open>(value, error)\<close> returns are
  pairs or sums, a nil pointer is \<open>None\<close>, and a run-time panic is a result of its own.
\<close>

subsection \<open>Strings and paths of the Go standard library\<close>

text \<open>
  \<^verbatim>\<open>strings.ToLower\<close> on the bytes of a string. The table is the ASCII one: the
  names and nonces that reach the accessor are ASCII (route pattern \<^verbatim>\<open>\w(([\w-.]+)?\w)?\<close>,
  UUIDs), and a byte outside \<^verbatim>\<open>A-Z\<close> is left as it is.
\<close>

definition upper_letters :: string where
  "upper_letters = ''ABCDEFGHIJKLMNOPQRSTUVWXYZ''"

definition lower_letters :: string where
  "lower_letters = ''abcdefghijklmnopqrstuvwxyz''"

definition ToLower_char :: "char \<Rightarrow> char" where
  "ToLower_char c =
     (case map_of (zip upper_letters lower_letters) c of Some l \<Rightarrow> l | None \<Rightarrow> c)"

definition ToLower :: "string \<Rightarrow> string" where
  "ToLower s = map ToLower_char s"

text \<open>\<^verbatim>\<open>strings.Split(s, "/")\<close>: the elements between the slashes, empty ones included.\<close>

fun split_slash :: "string \<Rightarrow> string list" where
  "split_slash [] = [[]]"
| "split_slash (c # cs) =
     (if c = CHR ''/'' then [] # split_slash cs
      else (case split_slash cs of
              [] \<Rightarrow> [[c]]
            | e # es \<Rightarrow> (c # e) # es))"

fun join_slash :: "string list \<Rightarrow> string" where
  "join_slash [] = []"
| "join_slash [e] = e"
| "join_slash (e # e' # es) = e @ ''/'' @ join_slash (e' # es)"

text \<open>
  \<^verbatim>\<open>path.Clean\<close>, element by element: empty elements and \<^verbatim>\<open>.\<close> are dropped, a
  \<^verbatim>\<open>..\<close> removes the real element before it; where there is none it is dropped in a
  rooted path and kept in a relative one. \<open>out\<close> is the output written so far.
\<close>

fun clean_elems :: "bool \<Rightarrow> string list \<Rightarrow> string list \<Rightarrow> string list" where
  "clean_elems rooted out [] = out"
| "clean_elems rooted out (e # es) =
     (if e = [] \<or> e = ''.'' then clean_elems rooted out es
      else if e = ''..'' then
        (if out \<noteq> [] \<and> last out \<noteq> ''..'' then clean_elems rooted (butlast out) es
         else if \<not> rooted then clean_elems rooted (out @ [''..'']) es
         else clean_elems rooted out es)
      else clean_elems rooted (out @ [e]) es)"

definition path_Clean :: "string \<Rightarrow> string" where
  "path_Clean p =
     (if p = [] then ''.''
      else
        (let rooted = (hd p = CHR ''/'');
             out = clean_elems rooted [] (split_slash p)
         in if rooted then CHR ''/'' # join_slash out
            else if out = [] then ''.''
            else join_slash out))"

text \<open>
  \<^verbatim>\<open>path.Join\<close>: empty elements are ignored, the rest is joined with slashes and
  cleaned; with nothing but empty elements the result is the empty string.
\<close>

definition path_Join :: "string list \<Rightarrow> string" where
  "path_Join elem =
     (let buf = filter (\<lambda>e. e \<noteq> []) elem
      in if buf = [] then [] else path_Clean (join_slash buf))"

subsection \<open>The host's key-value store\<close>

text \<open>
  \<^verbatim>\<open>logical.Storage\<close>: entries by key, and the four operations, each of which may
  fail. \<open>unavailable s op key\<close> says that operation \<open>op\<close> on \<open>key\<close> returns an error.
  The values are the stored documents (\<open>'v\<close>).
\<close>

datatype storage_op = OpGet | OpPut | OpList | OpDelete

datatype error =
    StorageFailure storage_op string
  | MarshalFailure
  | UnmarshalFailure
  | EntryFailure string
  | ClientFailure string

record 'v storage =
  entries :: "(string \<times> 'v) list"
  unavailable :: "storage_op \<Rightarrow> string \<Rightarrow> bool"

definition storage_Get :: "'v storage \<Rightarrow> string \<Rightarrow> error + 'v option" where
  "storage_Get s key =
     (if unavailable s OpGet key then Inl (StorageFailure OpGet key)
      else Inr (map_of (entries s) key))"

definition storage_Put :: "'v storage \<Rightarrow> string \<Rightarrow> 'v \<Rightarrow> error option \<times> 'v storage" where
  "storage_Put s key v =
     (if unavailable s OpPut key then (Some (StorageFailure OpPut key), s)
      else (None, s\<lparr>entries := AList.update key v (entries s)\<rparr>))"

definition storage_Delete :: "'v storage \<Rightarrow> string \<Rightarrow> error option \<times> 'v storage" where
  "storage_Delete s key =
     (if unavailable s OpDelete key then (Some (StorageFailure OpDelete key), s)
      else (None, s\<lparr>entries := AList.delete key (entries s)\<rparr>))"




subsection \<open>atomicStorageAccessor\<close>

text \<open>
  The key of an operation: starting from the accessor's path, every subkey is lowercased
  and joined on. The mutex of the accessor guards one operation and has no effect on its
  result.
\<close>

fun accessor_key :: "string \<Rightarrow> string list \<Rightarrow> string" where
  "accessor_key key [] = key"
| "accessor_key key (subkey # subkeys) =
     accessor_key (path_Join [key, ToLower subkey]) subkeys"

definition accessor_get :: "string \<Rightarrow> 'v storage \<Rightarrow> string list \<Rightarrow> error + 'v option" where
  "accessor_get path s subkeys = storage_Get s (accessor_key path subkeys)"

text \<open>
  \<^verbatim>\<open>logical.StorageEntryJSON\<close> is the parameter \<open>json\<close>: the encoder's error, or
  the entry (a pointer, \<open>None\<close> when nil) that holds the document of the value.
\<close>

definition accessor_put ::
  "string \<Rightarrow> 'v storage \<Rightarrow> ('d \<Rightarrow> error + 'v option) \<Rightarrow> 'd \<Rightarrow> string list
     \<Rightarrow> error option \<times> 'v storage"
where
  "accessor_put path s json data subkeys =
     (let key = accessor_key path subkeys
      in case json data of
           Inl err \<Rightarrow> (Some err, s)
         | Inr None \<Rightarrow> (Some (EntryFailure key), s)
         | Inr (Some entry) \<Rightarrow> storage_Put s key entry)"


definition accessor_delete ::
  "string \<Rightarrow> 'v storage \<Rightarrow> string list \<Rightarrow> error option \<times> 'v storage"
where
  "accessor_delete path s subkeys = storage_Delete s (accessor_key path subkeys)"

subsection \<open>Responses and secrets of the framework\<close>

datatype go_value = GoString string | GoInt int | GoBool bool

record secret =
  InternalData :: "(string \<times> go_value) list"
  TTL :: int
  Renewable :: bool

record response =
  Data :: "(string \<times> string) list"
  Warnings :: "string list"
  Secret :: "secret option"

definition ErrorResponse :: "string \<Rightarrow> response" where
  "ErrorResponse text = \<lparr>Data = [(''error'', text)], Warnings = [], Secret = None\<rparr>"

definition IsError :: "response \<Rightarrow> bool" where
  "IsError r = (length (Data r) = 1 \<and> map_of (Data r) ''error'' \<noteq> None)"

subsection \<open>The lease hooks of an issued secret\<close>

definition secretApprovedSecretIssueRenew ::
  "'v storage \<Rightarrow> secret \<Rightarrow> (response option \<times> error option) \<times> 'v storage"
where
  "secretApprovedSecretIssueRenew s sec =
     ((Some (ErrorResponse ''approved_secret_issue cannot be renewed - request again instead''),
       None), s)"

text \<open>
  The result of a call that may panic. \<^verbatim>\<open>x.(string)\<close> panics when \<open>x\<close> is nil
  or holds a value of another type; \<^verbatim>\<open>x == ""\<close> is true only for the empty string.
\<close>

datatype 'a outcome = Returns 'a | Panics

fun Error :: "error \<Rightarrow> string" where
  "Error (StorageFailure op key) = ''storage failure at '' @ key"
| "Error MarshalFailure = ''failed to encode entry''"
| "Error UnmarshalFailure = ''failed to decode entry''"
| "Error (EntryFailure key) = ''failed to create storage entry '' @ key"
| "Error (ClientFailure text) = text"

definition quoted :: "string \<Rightarrow> string" where
  "quoted text = CHR 0x22 # text @ [CHR 0x22]"

definition secretApprovedSecretIssueRevoke ::
  "'v storage \<Rightarrow> secret \<Rightarrow> (response option \<times> error option) outcome \<times> 'v storage"
where
  "secretApprovedSecretIssueRevoke s sec =
     (let roleNameRaw = map_of (InternalData sec) ''name''
      in if roleNameRaw = Some (GoString [])
         then (Returns (Some (ErrorResponse ''missing role''), None), s)
         else
           (case roleNameRaw of
              Some (GoString roleName) \<Rightarrow>
                (let nonceRaw = map_of (InternalData sec) ''nonce''
                 in if nonceRaw = Some (GoString [])
                    then (Returns (Some (ErrorResponse ''missing nonce''), None), s)
                    else
                      (case nonceRaw of
                         Some (GoString nonce) \<Rightarrow>
                           (case accessor_delete ''issue'' s [roleName, nonce] of
                              (Some err, s') \<Rightarrow>
                                (Returns
                                   (Some (ErrorResponse
                                      (''failed to delete issue for role '' @ quoted roleName
                                       @ '' with nonce '' @ quoted nonce @ '': ''
                                       @ Error err)),
                                    None), s')
                            | (None, s') \<Rightarrow> (Returns (None, None), s'))
                       | _ \<Rightarrow> (Panics, s)))
            | _ \<Rightarrow> (Panics, s)))"

subsection \<open>Roles (path_roles.go)\<close>

text \<open>
  \<^verbatim>\<open>time.Duration\<close> is a signed 64-bit count of nanoseconds; \<open>int64\<close> is the
  wrap-around of a product that leaves the range, and \<open>seconds n\<close> is
  \<^verbatim>\<open>time.Second * time.Duration(n)\<close>.
\<close>

definition int64 :: "int \<Rightarrow> int" where
  "int64 x = (x + 2 ^ 63) mod 2 ^ 64 - 2 ^ 63"

definition seconds :: "int \<Rightarrow> int" where
  "seconds n = int64 (1000000000 * n)"

record roleStorageEntry =
  SecretPath :: string
  SecretPathMethod :: string
  SecretData :: "(string \<times> go_value) list option"
  SecretType :: string
  SecretEnvironment :: string
  SecretAWSStateRole :: string
  SecretRequiredFields :: "string list"
  SecretTTL :: int
  SecretMaxTTL :: int
  ExclusiveLease :: bool
  MinApprovers :: int
  BoundRequesterIDs :: "string list"
  BoundRequesterRoles :: "string list"
  BoundApproverIDs :: "string list"
  BoundApproverRoles :: "string list"
  NotifySlackChannels :: "string list"

text \<open>\<^verbatim>\<open>&roleStorageEntry{}\<close>: every field at its zero value.\<close>

definition zero_role :: roleStorageEntry where
  "zero_role =
     \<lparr>SecretPath = [], SecretPathMethod = [], SecretData = None, SecretType = [],
      SecretEnvironment = [], SecretAWSStateRole = [], SecretRequiredFields = [],
      SecretTTL = 0, SecretMaxTTL = 0, ExclusiveLease = False, MinApprovers = 0,
      BoundRequesterIDs = [], BoundRequesterRoles = [], BoundApproverIDs = [],
      BoundApproverRoles = [], NotifySlackChannels = []\<rparr>"

text \<open>
  The request's field data: a field is \<open>Some\<close> when the request supplies it
  (\<^verbatim>\<open>d.GetOk\<close> answers ok) and \<open>None\<close> when it does not. A supplied map is a
  non-nil Go map, also when it has no entries. The name comes from the route.
\<close>

record FieldData =
  fd_name :: string
  fd_secret_path :: "string option"
  fd_secret_path_method :: "string option"
  fd_secret_data :: "(string \<times> go_value) list option"
  fd_secret_type :: "string option"
  fd_secret_environment :: "string option"
  fd_secret_aws_state_role :: "string option"
  fd_secret_required_fields :: "string list option"
  fd_secret_ttl :: "int option"
  fd_secret_max_ttl :: "int option"
  fd_exclusive_lease :: "bool option"
  fd_min_approvers :: "int option"
  fd_bound_requester_ids :: "string list option"
  fd_bound_requester_roles :: "string list option"
  fd_bound_approver_ids :: "string list option"
  fd_bound_approver_roles :: "string list option"
  fd_notify_slack_channels :: "string list option"

text \<open>
  \<^verbatim>\<open>if v, ok := d.GetOk(k); ok { role.X = v }\<close>: the supplied value, or the one the
  role has. \<open>Get\<close> is \<^verbatim>\<open>d.Get(k)\<close>: the supplied value, or the schema's default.
\<close>

definition GetOk_or :: "'a option \<Rightarrow> 'a \<Rightarrow> 'a" where
  "GetOk_or raw old = (case raw of Some v \<Rightarrow> v | None \<Rightarrow> old)"

definition Get :: "'a option \<Rightarrow> 'a \<Rightarrow> 'a" where
  "Get raw dflt = (case raw of Some v \<Rightarrow> v | None \<Rightarrow> dflt)"

datatype operation = CreateOperation | UpdateOperation | ReadOperation | DeleteOperation

definition errBadSecretPathMethod :: response where
  "errBadSecretPathMethod = ErrorResponse ''bad secret_path_method (expected POST or GET)''"

definition errBadMinApprovers :: response where
  "errBadMinApprovers = ErrorResponse ''bad min_approvers (must be >= 1)''"

definition errBadSecretDataMethod :: response where
  "errBadSecretDataMethod = ErrorResponse ''bad method for secret_data (must be POST)''"

definition errTTLGreaterThanMax :: response where
  "errTTLGreaterThanMax = ErrorResponse ''secret_ttl should not be greater than secret_max_ttl''"

definition max_ttl_warning :: response where
  "max_ttl_warning =
     \<lparr>Data = [],
      Warnings = [''secret_max_ttl is greater than the system or backend mount's maximum TTL value; secrets' max TTL value is truncated''],
      Secret = None\<rparr>"

text \<open>
  The documents of the store are JSON; encoder and decoder are parameters.
  \<open>MaxLeaseTTL\<close> is \<^verbatim>\<open>b.System().MaxLeaseTTL()\<close>.
\<close>

record 'v json =
  Marshal :: "roleStorageEntry \<Rightarrow> error + 'v option"
  Unmarshal :: "'v \<Rightarrow> error + roleStorageEntry"

definition backend_role ::
  "'v json \<Rightarrow> 'v storage \<Rightarrow> string \<Rightarrow> error + roleStorageEntry option"
where
  "backend_role js s name =
     (case accessor_get ''role'' s [name] of
        Inl err \<Rightarrow> Inl err
      | Inr None \<Rightarrow> Inr None
      | Inr (Some entry) \<Rightarrow>
          (case Unmarshal js entry of
             Inl err \<Rightarrow> Inl err
           | Inr role \<Rightarrow> Inr (Some role)))"

definition pathRoleDelete ::
  "'v storage \<Rightarrow> FieldData \<Rightarrow> (response option \<times> error option) \<times> 'v storage"
where
  "pathRoleDelete s d =
     (case accessor_delete ''role'' s [fd_name d] of
        (Some err, s') \<Rightarrow> ((None, Some err), s')
      | (None, s') \<Rightarrow> ((None, None), s'))"

text \<open>
  The body of \<^verbatim>\<open>pathRoleCreateUpdate\<close> between the load of the role and the write,
  block by block. First the path and the method: the supplied method, else the stored
  one, else the schema's default \<^verbatim>\<open>GET\<close>.
\<close>

definition set_path_and_method :: "roleStorageEntry \<Rightarrow> FieldData \<Rightarrow> roleStorageEntry" where
  "set_path_and_method role d =
     role\<lparr>SecretPath := Get (fd_secret_path d) [],
          SecretPathMethod :=
            (case fd_secret_path_method d of
               Some m \<Rightarrow> m
             | None \<Rightarrow>
                 if SecretPathMethod role = [] then ''GET'' else SecretPathMethod role)\<rparr>"

text \<open>The secret data: the supplied map, else nil.\<close>

definition set_secret_data :: "roleStorageEntry \<Rightarrow> FieldData \<Rightarrow> roleStorageEntry" where
  "set_secret_data role d = role\<lparr>SecretData := fd_secret_data d\<rparr>"

text \<open>Type, environment, state role and required fields: the supplied ones only.\<close>

definition set_secret_details :: "roleStorageEntry \<Rightarrow> FieldData \<Rightarrow> roleStorageEntry" where
  "set_secret_details role d =
     role\<lparr>SecretType := GetOk_or (fd_secret_type d) (SecretType role),
          SecretEnvironment := GetOk_or (fd_secret_environment d) (SecretEnvironment role),
          SecretAWSStateRole := GetOk_or (fd_secret_aws_state_role d) (SecretAWSStateRole role),
          SecretRequiredFields :=
            GetOk_or (fd_secret_required_fields d) (SecretRequiredFields role)\<rparr>"

text \<open>
  The two TTLs: the supplied seconds, else on a create the schema's default (8h, 12h),
  else what the role has.
\<close>

definition set_ttls :: "operation \<Rightarrow> roleStorageEntry \<Rightarrow> FieldData \<Rightarrow> roleStorageEntry" where
  "set_ttls op role d =
     role\<lparr>SecretTTL :=
            (case fd_secret_ttl d of
               Some n \<Rightarrow> seconds n
             | None \<Rightarrow> if op = CreateOperation then seconds 28800 else SecretTTL role),
          SecretMaxTTL :=
            (case fd_secret_max_ttl d of
               Some n \<Rightarrow> seconds n
             | None \<Rightarrow> if op = CreateOperation then seconds 43200 else SecretMaxTTL role)\<rparr>"

text \<open>The mount's ceiling on the maximum TTL, and the warning that goes with it.\<close>

definition truncate_max_ttl ::
  "int \<Rightarrow> roleStorageEntry \<Rightarrow> response option \<times> roleStorageEntry"
where
  "truncate_max_ttl MaxLeaseTTL role =
     (if SecretMaxTTL role > MaxLeaseTTL
      then (Some max_ttl_warning, role\<lparr>SecretMaxTTL := MaxLeaseTTL\<rparr>)
      else (None, role))"

text \<open>
  The exclusive lease flag, and the approver count: the supplied one, else the stored
  one, else the schema's default 1.
\<close>

definition set_lease_and_approvers :: "roleStorageEntry \<Rightarrow> FieldData \<Rightarrow> roleStorageEntry" where
  "set_lease_and_approvers role d =
     role\<lparr>ExclusiveLease := Get (fd_exclusive_lease d) False,
          MinApprovers :=
            (case fd_min_approvers d of
               Some n \<Rightarrow> n
             | None \<Rightarrow> if MinApprovers role = 0 then 1 else MinApprovers role)\<rparr>"

text \<open>The bound identities and roles and the Slack channels: the supplied ones only.\<close>

definition set_bounds :: "roleStorageEntry \<Rightarrow> FieldData \<Rightarrow> roleStorageEntry" where
  "set_bounds role d =
     role\<lparr>BoundRequesterIDs := GetOk_or (fd_bound_requester_ids d) (BoundRequesterIDs role),
          BoundRequesterRoles :=
            GetOk_or (fd_bound_requester_roles d) (BoundRequesterRoles role),
          BoundApproverIDs := GetOk_or (fd_bound_approver_ids d) (BoundApproverIDs role),
          BoundApproverRoles := GetOk_or (fd_bound_approver_roles d) (BoundApproverRoles role),
          NotifySlackChannels :=
            GetOk_or (fd_notify_slack_channels d) (NotifySlackChannels role)\<rparr>"

text \<open>
  The blocks in the order of the source, with its four checks between them: the role as
  the request leaves it together with the response so far, or the error response of the
  check that refused it.
\<close>

definition role_from_fields ::
  "int \<Rightarrow> operation \<Rightarrow> roleStorageEntry \<Rightarrow> FieldData
     \<Rightarrow> response + (response option \<times> roleStorageEntry)"
where
  "role_from_fields MaxLeaseTTL op role0 d =
     (let role1 = set_path_and_method role0 d
      in if SecretPathMethod role1 \<noteq> ''POST'' \<and> SecretPathMethod role1 \<noteq> ''GET''
         then Inl errBadSecretPathMethod
         else
           let role2 = set_secret_data role1 d
           in if SecretPathMethod role2 = ''GET'' \<and> SecretData role2 \<noteq> None
              then Inl errBadSecretDataMethod
              else
                let role3 = set_ttls op (set_secret_details role2 d) d
                in if SecretMaxTTL role3 > 0 \<and> SecretTTL role3 > SecretMaxTTL role3
                   then Inl errTTLGreaterThanMax
                   else
                     (case truncate_max_ttl MaxLeaseTTL role3 of
                        (resp, role4) \<Rightarrow>
                          let role5 = set_lease_and_approvers role4 d
                          in if MinApprovers role5 < 1
                             then Inl errBadMinApprovers
                             else Inr (resp, set_bounds role5 d)))"

text \<open>The role the request works on: the stored one, or a new one when there is none.\<close>

definition role_or_new :: "roleStorageEntry option \<Rightarrow> roleStorageEntry" where
  "role_or_new found = (case found of None \<Rightarrow> zero_role | Some role \<Rightarrow> role)"

definition pathRoleCreateUpdate ::
  "'v json \<Rightarrow> int \<Rightarrow> 'v storage \<Rightarrow> operation \<Rightarrow> FieldData
     \<Rightarrow> (response option \<times> error option) \<times> 'v storage"
where
  "pathRoleCreateUpdate js MaxLeaseTTL s op d =
     (case backend_role js s (fd_name d) of
        Inl err \<Rightarrow> ((None, Some err), s)
      | Inr found \<Rightarrow>
          (let role0 = role_or_new found
           in case role_from_fields MaxLeaseTTL op role0 d of
                Inl errResp \<Rightarrow> ((Some errResp, None), s)
              | Inr (resp, role) \<Rightarrow>
                  (case accessor_put ''role'' s (Marshal js) role [fd_name d] of
                     (err, s') \<Rightarrow> ((resp, err), s'))))"

subsection \<open>The values a role request takes effect with\<close>

text \<open>
  The effective value of a field is the supplied one; when the request leaves the field
  out it is the stored one, or the schema's default where the source falls back to it
  (method \<^verbatim>\<open>GET\<close>, one approver, and on a create 8h and 12h for the TTLs).
\<close>

definition effective_method :: "roleStorageEntry option \<Rightarrow> FieldData \<Rightarrow> string" where
  "effective_method old d =
     (case fd_secret_path_method d of
        Some m \<Rightarrow> m
      | None \<Rightarrow>
          (case old of
             None \<Rightarrow> ''GET''
           | Some r \<Rightarrow> if SecretPathMethod r = [] then ''GET'' else SecretPathMethod r))"

definition effective_min_approvers :: "roleStorageEntry option \<Rightarrow> FieldData \<Rightarrow> int" where
  "effective_min_approvers old d =
     (case fd_min_approvers d of
        Some n \<Rightarrow> n
      | None \<Rightarrow>
          (case old of
             None \<Rightarrow> 1
           | Some r \<Rightarrow> if MinApprovers r = 0 then 1 else MinApprovers r))"

definition effective_ttl :: "operation \<Rightarrow> roleStorageEntry option \<Rightarrow> FieldData \<Rightarrow> int" where
  "effective_ttl op old d =
     (case fd_secret_ttl d of
        Some n \<Rightarrow> seconds n
      | None \<Rightarrow>
          if op = CreateOperation then seconds 28800
          else (case old of None \<Rightarrow> 0 | Some r \<Rightarrow> SecretTTL r))"

definition effective_max_ttl :: "operation \<Rightarrow> roleStorageEntry option \<Rightarrow> FieldData \<Rightarrow> int" where
  "effective_max_ttl op old d =
     (case fd_secret_max_ttl d of
        Some n \<Rightarrow> seconds n
      | None \<Rightarrow>
          if op = CreateOperation then seconds 43200
          else (case old of None \<Rightarrow> 0 | Some r \<Rightarrow> SecretMaxTTL r))"

text \<open>
  The four conditions under which a role is refused. In \<open>rejected\<close> the secret data
  counts when it is supplied; in \<open>rejected_as_claimed\<close> it counts when it has an entry.
\<close>

definition rejected :: "operation \<Rightarrow> roleStorageEntry option \<Rightarrow> FieldData \<Rightarrow> bool" where
  "rejected op old d =
     (effective_min_approvers old d < 1
      \<or> (effective_method old d \<noteq> ''GET'' \<and> effective_method old d \<noteq> ''POST'')
      \<or> (fd_secret_data d \<noteq> None \<and> effective_method old d = ''GET'')
      \<or> (effective_ttl op old d > effective_max_ttl op old d \<and> effective_max_ttl op old d > 0))"

definition rejected_as_claimed ::
  "operation \<Rightarrow> roleStorageEntry option \<Rightarrow> FieldData \<Rightarrow> bool"
where
  "rejected_as_claimed op old d =
     (effective_min_approvers old d < 1
      \<or> (effective_method old d \<noteq> ''GET'' \<and> effective_method old d \<noteq> ''POST'')
      \<or> ((case fd_secret_data d of None \<Rightarrow> False | Some m \<Rightarrow> m \<noteq> [])
          \<and> effective_method old d = ''GET'')
      \<or> (effective_ttl op old d > effective_max_ttl op old d \<and> effective_max_ttl op old d > 0))"

text \<open>
  For concrete runs: documents that are the role values themselves, a store with no
  entries that never fails, and a request that supplies nothing but the name.
\<close>

definition plain_json :: "roleStorageEntry json" where
  "plain_json = \<lparr>Marshal = (\<lambda>role. Inr (Some role)), Unmarshal = (\<lambda>entry. Inr entry)\<rparr>"

definition empty_store :: "'v storage" where
  "empty_store = \<lparr>entries = [], unavailable = (\<lambda>op key. False)\<rparr>"

definition no_fields :: "string \<Rightarrow> FieldData" where
  "no_fields name =
     \<lparr>fd_name = name, fd_secret_path = None, fd_secret_path_method = None,
      fd_secret_data = None, fd_secret_type = None, fd_secret_environment = None,
      fd_secret_aws_state_role = None, fd_secret_required_fields = None,
      fd_secret_ttl = None, fd_secret_max_ttl = None, fd_exclusive_lease = None,
      fd_min_approvers = None, fd_bound_requester_ids = None,
      fd_bound_requester_roles = None, fd_bound_approver_ids = None,
      fd_bound_approver_roles = None, fd_notify_slack_channels = None\<rparr>"

subsection \<open>Names and namespaces\<close>

text \<open>
  A plain path element is what a role name of the route pattern or a nonce is: not
  empty, without a slash, and neither \<^verbatim>\<open>.\<close> nor \<^verbatim>\<open>..\<close>. A key is in the
  namespace of an accessor when it is the accessor's path or lies below it.
\<close>

definition plain :: "string \<Rightarrow> bool" where
  "plain e = (e \<noteq> [] \<and> CHR ''/'' \<notin> set e \<and> e \<noteq> ''.'' \<and> e \<noteq> ''..'')"

definition in_namespace :: "string \<Rightarrow> string \<Rightarrow> bool" where
  "in_namespace ns key = (key = ns \<or> prefix (ns @ ''/'') key)"



text \<open>
  Concrete requests and roles: a create that supplies an empty secret data map, a create
  of an admin role with a maximum TTL of 48h, the role as a test of the repository
  stores it, and an update that supplies the path only.
\<close>

definition empty_data_request :: FieldData where
  "empty_data_request = (no_fields ''k8s-admin'')\<lparr>fd_secret_data := Some []\<rparr>"

definition admin_request :: FieldData where
  "admin_request =
     (no_fields ''K8s-Admin'')
       \<lparr>fd_secret_path := Some ''integration/k8s/pki/admin'',
        fd_secret_path_method := Some ''POST'',
        fd_secret_max_ttl := Some 172800,
        fd_min_approvers := Some 2\<rparr>"

definition admin_role :: roleStorageEntry where
  "admin_role =
     zero_role
       \<lparr>SecretPath := ''integration/k8s/pki/admin'',
        SecretPathMethod := ''POST'',
        SecretData := Some [(''alt_names'', GoString ''example.com'')],
        SecretTTL := seconds 3600,
        SecretMaxTTL := seconds 14400,
        MinApprovers := 2,
        BoundRequesterIDs := [''alice''],
        BoundRequesterRoles := [''dev''],
        BoundApproverIDs := [''gd40qy'', ''bc12po''],
        BoundApproverRoles := [''sre'', ''security''],
        NotifySlackChannels := [''#ops'']\<rparr>"

definition admin_store :: "roleStorageEntry storage" where
  "admin_store = empty_store\<lparr>entries := [(''role/k8s-admin'', admin_role)]\<rparr>"

definition path_only_request :: FieldData where
  "path_only_request =
     (no_fields ''K8s-Admin'')\<lparr>fd_secret_path := Some ''integration/k8s/pki/admin''\<rparr>"

text \<open>
  A store with a role, a request and an issue of that role, and the secret whose lease
  belongs to the issue.
\<close>

definition ledger_store :: "string storage" where
  "ledger_store =
     empty_store\<lparr>entries :=
       [(''role/k8s-admin'', ''role document''),
        (''request/k8s-admin/b325b7c8'', ''request document''),
        (''issue/k8s-admin/0fbceb51'', ''issue document'')]\<rparr>"

definition issued_secret :: secret where
  "issued_secret =
     \<lparr>InternalData = [(''name'', GoString ''K8s-Admin''), (''nonce'', GoString ''0FBCEB51'')],
      TTL = 3600, Renewable = False\<rparr>"

subsection \<open>The service token: config, Vault client and the periodic renewer\<close>

record configStorageEntry =
  ApprovalTTL :: int
  VaultAddr :: string
  VaultToken :: string
  VaultPolicies :: "string list"
  IdentityTemplate :: string
  SlackWebhookURL :: string

text \<open>\<^verbatim>\<open>backend.config\<close>; the decoder of the config document is a parameter.\<close>

definition backend_config ::
  "('v \<Rightarrow> error + configStorageEntry) \<Rightarrow> 'v storage \<Rightarrow> error + configStorageEntry option"
where
  "backend_config unmarshal s =
     (case accessor_get ''config'' s [] of
        Inl err \<Rightarrow> Inl err
      | Inr None \<Rightarrow> Inr None
      | Inr (Some entry) \<Rightarrow>
          (case unmarshal entry of
             Inl err \<Rightarrow> Inl err
           | Inr config \<Rightarrow> Inr (Some config)))"

text \<open>
  The Vault API as the helper uses it: \<^verbatim>\<open>api.DefaultConfig()\<close> gives a config (nil
  is \<open>None\<close>) that may carry an error, \<^verbatim>\<open>api.NewClient\<close> answers with a client
  pointer and an error, and \<^verbatim>\<open>clt.Logical().Write\<close> with an error.
\<close>

record api_config =
  config_Error :: "error option"
  config_Address :: string

record client =
  client_Address :: string
  client_Token :: string

record vault_api =
  DefaultConfig :: "api_config option"
  NewClient :: "api_config \<Rightarrow> client option \<times> error option"
  Logical_Write :: "client \<Rightarrow> string \<Rightarrow> (string \<times> string) list \<Rightarrow> error option"

text \<open>
  \<^verbatim>\<open>newVaultClient\<close>. After \<^verbatim>\<open>api.NewClient\<close> the source wraps a non-nil error
  and drops the wrapped value (there is no return), so whatever the error,
  \<^verbatim>\<open>clt.SetToken\<close> runs next: on a nil client it dereferences nil and panics.
\<close>

definition newVaultClient ::
  "vault_api \<Rightarrow> string \<Rightarrow> string \<Rightarrow> (client option \<times> error option) outcome"
where
  "newVaultClient api vaultAddr vaultToken =
     (case DefaultConfig api of
        None \<Rightarrow>
          Returns (None, Some (ClientFailure ''failed to create default Vault client config''))
      | Some vaultcfg \<Rightarrow>
          (case config_Error vaultcfg of
             Some e \<Rightarrow>
               Returns (None, Some (ClientFailure
                 (''failed to create default Vault client config: '' @ Error e)))
           | None \<Rightarrow>
               (case NewClient api (vaultcfg\<lparr>config_Address := vaultAddr\<rparr>) of
                  (clt, err) \<Rightarrow>
                    (case clt of
                       None \<Rightarrow> Panics
                     | Some c \<Rightarrow> Returns (Some (c\<lparr>client_Token := vaultToken\<rparr>), None)))))"

text \<open>
  The periodic function that \<^verbatim>\<open>newVaultTokenRenewer\<close> returns. A panic of the
  helper is a panic of the function.
\<close>

definition newVaultTokenRenewer ::
  "('v \<Rightarrow> error + configStorageEntry) \<Rightarrow> vault_api \<Rightarrow> 'v storage \<Rightarrow> error option outcome"
where
  "newVaultTokenRenewer unmarshal api s =
     (case backend_config unmarshal s of
        Inl err \<Rightarrow> Returns None
      | Inr None \<Rightarrow> Returns None
      | Inr (Some config) \<Rightarrow>
          (case newVaultClient api (VaultAddr config) (VaultToken config) of
             Panics \<Rightarrow> Panics
           | Returns (clt, Some err) \<Rightarrow> Returns None
           | Returns (None, None) \<Rightarrow> Panics
           | Returns (Some c, None) \<Rightarrow>
               (case Logical_Write api c ''/auth/token/renew-self'' [(''increment'', ''72h'')] of
                  Some err \<Rightarrow> Returns None
                | None \<Rightarrow> Returns None)))"

text \<open>
  A stored config whose address does not parse, and an API whose \<^verbatim>\<open>NewClient\<close>
  refuses that address with a nil client and an error.
\<close>

definition stored_config :: configStorageEntry where
  "stored_config =
     \<lparr>ApprovalTTL = seconds 3600, VaultAddr = ''http://[::1'', VaultToken = ''s.token'',
      VaultPolicies = [''root''], IdentityTemplate = [], SlackWebhookURL = []\<rparr>"

definition config_store :: "configStorageEntry storage" where
  "config_store = empty_store\<lparr>entries := [(''config'', stored_config)]\<rparr>"

definition rejecting_api :: vault_api where
  "rejecting_api =
     \<lparr>DefaultConfig = Some \<lparr>config_Error = None, config_Address = ''https://127.0.0.1:8200''\<rparr>,
      NewClient = (\<lambda>cfg. if config_Address cfg = ''http://[::1''
                            then (None, Some (ClientFailure ''parse: missing ] in host''))
                            else (Some \<lparr>client_Address = config_Address cfg, client_Token = []\<rparr>,
                                  None)),
      Logical_Write = (\<lambda>clt path data. None)\<rparr>"

subsection \<open>The approval workflow\<close>

text \<open>
  Modelled from the spec: the request ledger, the approval engine and the issuance engine
  (\<^verbatim>\<open>pathRequest\<close>, \<^verbatim>\<open>pathApprove\<close>, \<^verbatim>\<open>pathIssue\<close> and
  \<^verbatim>\<open>requestStorageEntry\<close> of approved-secrets are registered in \<^verbatim>\<open>backend.go\<close>
  but their source is not part of what is given). The errors are the taxonomy of the
  spec's section 7; a request is the record of its section 3.
\<close>

datatype workflow_error =
  NotFound | PermissionDenied | Conflict | Expired | UpstreamFailure | Invalid

record request =
  rq_nonce :: string
  rq_requester_id :: string
  rq_requester_role :: string
  rq_bound_approver_ids :: "string list"
  rq_bound_approver_roles :: "string list"
  rq_min_approvers :: int
  rq_approver_ids :: "string set"
  rq_expires_at :: int

text \<open>
  Modelled from the spec: \<^verbatim>\<open>open\<close> (section 4.2). The role is the one resolved in
  step 1, the requester's identity and role are the resolver's answer, \<open>lease_active\<close>
  says whether an unexpired issue of the role exists, and the nonce is the fresh one of
  step 5. The request snapshots the approver constraints and the approver count, has no
  approvals and expires after the approval TTL.
\<close>

definition open_request ::
  "roleStorageEntry option \<Rightarrow> string \<Rightarrow> string \<Rightarrow> bool \<Rightarrow> string \<Rightarrow> int \<Rightarrow> int
     \<Rightarrow> workflow_error + request"
where
  "open_request found requester requester_role lease_active fresh_nonce now approval_ttl =
     (case found of
        None \<Rightarrow> Inl NotFound
      | Some role \<Rightarrow>
          if (BoundRequesterIDs role \<noteq> [] \<and> requester \<notin> set (BoundRequesterIDs role))
             \<or> (BoundRequesterRoles role \<noteq> []
                 \<and> requester_role \<notin> set (BoundRequesterRoles role))
          then Inl PermissionDenied
          else if ExclusiveLease role \<and> lease_active then Inl Conflict
          else Inr \<lparr>rq_nonce = fresh_nonce, rq_requester_id = requester,
                    rq_requester_role = requester_role,
                    rq_bound_approver_ids = BoundApproverIDs role,
                    rq_bound_approver_roles = BoundApproverRoles role,
                    rq_min_approvers = MinApprovers role,
                    rq_approver_ids = {},
                    rq_expires_at = now + approval_ttl\<rparr>)"

text \<open>
  Modelled from the spec: \<^verbatim>\<open>approve\<close> (section 4.3): not found, expired, the bound
  identities and roles of the snapshot, then the approver is added to the set of approver
  identities and the expiry is extended.
\<close>

definition approve ::
  "request option \<Rightarrow> string \<Rightarrow> string \<Rightarrow> int \<Rightarrow> int \<Rightarrow> workflow_error + request"
where
  "approve found approver approver_role now approval_ttl =
     (case found of
        None \<Rightarrow> Inl NotFound
      | Some rq \<Rightarrow>
          if now > rq_expires_at rq then Inl Expired
          else if (rq_bound_approver_ids rq \<noteq> [] \<and> approver \<notin> set (rq_bound_approver_ids rq))
                  \<or> (rq_bound_approver_roles rq \<noteq> []
                      \<and> approver_role \<notin> set (rq_bound_approver_roles rq))
          then Inl PermissionDenied
          else Inr (rq\<lparr>rq_approver_ids := insert approver (rq_approver_ids rq),
                       rq_expires_at := now + approval_ttl\<rparr>))"

text \<open>
  Modelled from the spec: approvals as they arrive, each by an identity with a role at a
  time; the first refused one ends the run.
\<close>

fun approve_all ::
  "request \<Rightarrow> (string \<times> string \<times> int) list \<Rightarrow> int \<Rightarrow> workflow_error + request"
where
  "approve_all rq [] approval_ttl = Inr rq"
| "approve_all rq ((approver, approver_role, now) # rest) approval_ttl =
     (case approve (Some rq) approver approver_role now approval_ttl of
        Inl e \<Rightarrow> Inl e
      | Inr rq' \<Rightarrow> approve_all rq' rest approval_ttl)"

text \<open>
  Modelled from the spec: \<^verbatim>\<open>issue\<close> (section 4.4): not found, expired, the threshold
  of step 2, the caller of step 3, then the downstream call and the notification, whose
  outcomes are parameters.
\<close>

definition issue ::
  "request option \<Rightarrow> string \<Rightarrow> int \<Rightarrow> (string + 'p) \<Rightarrow> bool \<Rightarrow> workflow_error + 'p"
where
  "issue found caller now downstream notified =
     (case found of
        None \<Rightarrow> Inl NotFound
      | Some rq \<Rightarrow>
          if now > rq_expires_at rq then Inl Expired
          else if int (card (rq_approver_ids rq)) < rq_min_approvers rq then Inl PermissionDenied
          else if caller \<noteq> rq_requester_id rq then Inl PermissionDenied
          else (case downstream of
                  Inl failure \<Rightarrow> Inl UpstreamFailure
                | Inr payload \<Rightarrow> if notified then Inr payload else Inl UpstreamFailure))"

text \<open>
  The scenario of the spec's section 8 on the admin role: the request as opened by alice,
  approvals by two identities (one of them twice), and approvals by one identity twice.
\<close>

definition opened_request :: request where
  "opened_request =
     \<lparr>rq_nonce = ''b325b7c8'', rq_requester_id = ''alice'', rq_requester_role = ''dev'',
      rq_bound_approver_ids = [''gd40qy'', ''bc12po''],
      rq_bound_approver_roles = [''sre'', ''security''],
      rq_min_approvers = 2, rq_approver_ids = {}, rq_expires_at = 600\<rparr>"

definition two_approvers :: "(string \<times> string \<times> int) list" where
  "two_approvers = [(''gd40qy'', ''sre'', 10), (''gd40qy'', ''sre'', 20), (''bc12po'', ''sre'', 30)]"

definition one_approver :: "(string \<times> string \<times> int) list" where
  "one_approver = [(''gd40qy'', ''sre'', 10), (''gd40qy'', ''sre'', 20)]"

subsection \<open>Calls that run at the same time\<close>

text \<open>
  The accessor's operations begin with \<^verbatim>\<open>a.mutex.RLock()\<close> (get, list) or
  \<^verbatim>\<open>a.mutex.Lock()\<close> (put, delete) and release the mutex when they return
  (\<^verbatim>\<open>defer\<close>). \<^verbatim>\<open>pathRoleCreateUpdate\<close> is the get-modify-put sequence of the
  source on one namespace: a get of the role through \<^verbatim>\<open>b.role\<close>, the changes, a put of
  the role. A call of it is at one of seven positions: before the read lock, inside the
  get, before the release of the read lock, before the write lock, inside the put, before
  the release of the write lock, and returned.
\<close>

datatype position =
  AtRLock | InGet | AtRUnlock | AtLock | InPut | AtUnlock | Returned

text \<open>
  What a call holds while it runs: its request, the role it has read, the role it is
  going to write with the response so far, and its result once it has one.
\<close>

record call =
  position :: position
  call_op :: operation
  call_fields :: FieldData
  call_found :: "error + roleStorageEntry option"
  call_role :: "response option \<times> roleStorageEntry"
  call_result :: "(response option \<times> error option) option"

text \<open>
  The plugin process: the mutex of the role accessor (the call that holds it for
  writing, the calls that hold it for reading), the calls by number, and the store.
\<close>

record 'v process =
  writer :: "nat option"
  readers :: "nat set"
  calls :: "nat \<Rightarrow> call"
  shared :: "'v storage"

definition holds_read :: "call \<Rightarrow> bool" where
  "holds_read c = (position c = InGet \<or> position c = AtRUnlock)"

definition holds_write :: "call \<Rightarrow> bool" where
  "holds_write c = (position c = InPut \<or> position c = AtUnlock)"

text \<open>
  One step of call \<open>t\<close>, or \<open>None\<close> when the call cannot move: \<^verbatim>\<open>RLock\<close> waits
  while a call holds the mutex for writing, \<^verbatim>\<open>Lock\<close> waits while any call holds it,
  a returned call has no step. (Go's mutex also makes \<^verbatim>\<open>RLock\<close> wait for a waiting
  writer; that removes schedules and adds none.) The get is \<open>backend_role\<close>, the changes
  are \<open>role_from_fields\<close>, the put is \<open>accessor_put\<close>; decoding and validation touch
  nothing shared and go with the release of the read lock.
\<close>

definition step :: "'v json \<Rightarrow> int \<Rightarrow> nat \<Rightarrow> 'v process \<Rightarrow> 'v process option" where
  "step js MaxLeaseTTL t w =
     (let c = calls w t
      in case position c of
           AtRLock \<Rightarrow>
             if writer w = None
             then Some (w\<lparr>readers := insert t (readers w),
                          calls := (calls w)(t := c\<lparr>position := InGet\<rparr>)\<rparr>)
             else None
         | InGet \<Rightarrow>
             Some (w\<lparr>calls := (calls w)(t := c
                     \<lparr>position := AtRUnlock,
                      call_found := backend_role js (shared w) (fd_name (call_fields c))\<rparr>)\<rparr>)
         | AtRUnlock \<Rightarrow>
             Some (w\<lparr>readers := readers w - {t},
                     calls := (calls w)(t :=
                       (case call_found c of
                          Inl err \<Rightarrow>
                            c\<lparr>position := Returned, call_result := Some (None, Some err)\<rparr>
                        | Inr found \<Rightarrow>
                            (case role_from_fields MaxLeaseTTL (call_op c) (role_or_new found)
                                    (call_fields c) of
                               Inl errResp \<Rightarrow>
                                 c\<lparr>position := Returned,
                                   call_result := Some (Some errResp, None)\<rparr>
                             | Inr (resp, role) \<Rightarrow>
                                 c\<lparr>position := AtLock, call_role := (resp, role)\<rparr>)))\<rparr>)
         | AtLock \<Rightarrow>
             if writer w = None \<and> readers w = {}
             then Some (w\<lparr>writer := Some t,
                          calls := (calls w)(t := c\<lparr>position := InPut\<rparr>)\<rparr>)
             else None
         | InPut \<Rightarrow>
             (case accessor_put ''role'' (shared w) (Marshal js) (snd (call_role c))
                     [fd_name (call_fields c)] of
                (err, s') \<Rightarrow>
                  Some (w\<lparr>shared := s',
                          calls := (calls w)(t := c
                            \<lparr>position := AtUnlock,
                             call_result := Some (fst (call_role c), err)\<rparr>)\<rparr>))
         | AtUnlock \<Rightarrow>
             Some (w\<lparr>writer := None,
                     calls := (calls w)(t := c\<lparr>position := Returned\<rparr>)\<rparr>)
         | Returned \<Rightarrow> None)"

text \<open>A schedule names the call that moves next; it runs while every step can be taken.\<close>

fun run :: "'v json \<Rightarrow> int \<Rightarrow> nat list \<Rightarrow> 'v process \<Rightarrow> 'v process option" where
  "run js MaxLeaseTTL [] w = Some w"
| "run js MaxLeaseTTL (t # schedule) w =
     (case step js MaxLeaseTTL t w of
        None \<Rightarrow> None
      | Some w' \<Rightarrow> run js MaxLeaseTTL schedule w')"

text \<open>The process at the start: no call has begun, nobody holds the mutex.\<close>

definition new_call :: "operation \<Rightarrow> FieldData \<Rightarrow> call" where
  "new_call op d =
     \<lparr>position = AtRLock, call_op = op, call_fields = d, call_found = Inr None,
      call_role = (None, zero_role), call_result = None\<rparr>"

definition start :: "'v storage \<Rightarrow> (nat \<Rightarrow> operation \<times> FieldData) \<Rightarrow> 'v process" where
  "start s requests =
     \<lparr>writer = None, readers = {},
      calls = (\<lambda>t. new_call (fst (requests t)) (snd (requests t))), shared = s\<rparr>"

text \<open>
  What the mutex knows of the calls: its readers are the calls inside a get, its writer
  is the call inside a put, and it never has both.
\<close>

definition lock_invariant :: "'v process \<Rightarrow> bool" where
  "lock_invariant w =
     ((\<forall>t. t \<in> readers w \<longleftrightarrow> holds_read (calls w t))
      \<and> (\<forall>t. writer w = Some t \<longleftrightarrow> holds_write (calls w t))
      \<and> (writer w = None \<or> readers w = {}))"

text \<open>
  Two updates of the stored admin role at the same time: call 2 supplies the bound
  approver identities, call 3 the Slack channels.
\<close>

definition approver_update :: FieldData where
  "approver_update = path_only_request\<lparr>fd_bound_approver_ids := Some [''carol'']\<rparr>"

definition slack_update :: FieldData where
  "slack_update = path_only_request\<lparr>fd_notify_slack_channels := Some [''#sre'']\<rparr>"

definition two_updates :: "nat \<Rightarrow> operation \<times> FieldData" where
  "two_updates t =
     (if t = 2 then (UpdateOperation, approver_update) else (UpdateOperation, slack_update))"

text \<open>The process after a schedule of the two updates, started on the admin store.\<close>

definition after :: "nat list \<Rightarrow> roleStorageEntry process option" where
  "after schedule = run plain_json (seconds 86400) schedule (start admin_store two_updates)"

section \<open>Theorems\<close>

subsection \<open>The lease hooks\<close>

text \<open>
  C6. Renewing the lease of an issued approved secret always returns the error response
  "approved_secret_issue cannot be renewed - request again instead", with no Go error;
  the response carries no secret, so no lease is extended, and the store is left as it
  was.
\<close>

theorem issue_renew_always_refused:
  "secretApprovedSecretIssueRenew s sec =
     ((Some (ErrorResponse ''approved_secret_issue cannot be renewed - request again instead''),
       None), s)
   \<and> IsError (ErrorResponse ''approved_secret_issue cannot be renewed - request again instead'')
   \<and> Secret (ErrorResponse ''approved_secret_issue cannot be renewed - request again instead'')
       = None"
  by (simp add: secretApprovedSecretIssueRenew_def ErrorResponse_def IsError_def)

subsection \<open>The role registry\<close>

lemma set_path_and_method_fields:
  "SecretPathMethod (set_path_and_method r d) =
     (case fd_secret_path_method d of Some m \<Rightarrow> m
      | None \<Rightarrow> if SecretPathMethod r = [] then ''GET'' else SecretPathMethod r)"
  "SecretData (set_path_and_method r d) = SecretData r"
  "SecretTTL (set_path_and_method r d) = SecretTTL r"
  "SecretMaxTTL (set_path_and_method r d) = SecretMaxTTL r"
  "MinApprovers (set_path_and_method r d) = MinApprovers r"
  "BoundRequesterIDs (set_path_and_method r d) = BoundRequesterIDs r"
  "BoundRequesterRoles (set_path_and_method r d) = BoundRequesterRoles r"
  "BoundApproverIDs (set_path_and_method r d) = BoundApproverIDs r"
  "BoundApproverRoles (set_path_and_method r d) = BoundApproverRoles r"
  "NotifySlackChannels (set_path_and_method r d) = NotifySlackChannels r"
  by (simp_all add: set_path_and_method_def)

lemma set_secret_data_fields:
  "SecretPathMethod (set_secret_data r d) = SecretPathMethod r"
  "SecretData (set_secret_data r d) = fd_secret_data d"
  "SecretTTL (set_secret_data r d) = SecretTTL r"
  "SecretMaxTTL (set_secret_data r d) = SecretMaxTTL r"
  "MinApprovers (set_secret_data r d) = MinApprovers r"
  "BoundRequesterIDs (set_secret_data r d) = BoundRequesterIDs r"
  "BoundRequesterRoles (set_secret_data r d) = BoundRequesterRoles r"
  "BoundApproverIDs (set_secret_data r d) = BoundApproverIDs r"
  "BoundApproverRoles (set_secret_data r d) = BoundApproverRoles r"
  "NotifySlackChannels (set_secret_data r d) = NotifySlackChannels r"
  by (simp_all add: set_secret_data_def)

lemma set_secret_details_fields:
  "SecretPathMethod (set_secret_details r d) = SecretPathMethod r"
  "SecretData (set_secret_details r d) = SecretData r"
  "SecretTTL (set_secret_details r d) = SecretTTL r"
  "SecretMaxTTL (set_secret_details r d) = SecretMaxTTL r"
  "MinApprovers (set_secret_details r d) = MinApprovers r"
  "BoundRequesterIDs (set_secret_details r d) = BoundRequesterIDs r"
  "BoundRequesterRoles (set_secret_details r d) = BoundRequesterRoles r"
  "BoundApproverIDs (set_secret_details r d) = BoundApproverIDs r"
  "BoundApproverRoles (set_secret_details r d) = BoundApproverRoles r"
  "NotifySlackChannels (set_secret_details r d) = NotifySlackChannels r"
  by (simp_all add: set_secret_details_def)

lemma set_ttls_fields:
  "SecretPathMethod (set_ttls op r d) = SecretPathMethod r"
  "SecretData (set_ttls op r d) = SecretData r"
  "SecretTTL (set_ttls op r d) =
     (case fd_secret_ttl d of Some n \<Rightarrow> seconds n
      | None \<Rightarrow> if op = CreateOperation then seconds 28800 else SecretTTL r)"
  "SecretMaxTTL (set_ttls op r d) =
     (case fd_secret_max_ttl d of Some n \<Rightarrow> seconds n
      | None \<Rightarrow> if op = CreateOperation then seconds 43200 else SecretMaxTTL r)"
  "MinApprovers (set_ttls op r d) = MinApprovers r"
  "BoundRequesterIDs (set_ttls op r d) = BoundRequesterIDs r"
  "BoundRequesterRoles (set_ttls op r d) = BoundRequesterRoles r"
  "BoundApproverIDs (set_ttls op r d) = BoundApproverIDs r"
  "BoundApproverRoles (set_ttls op r d) = BoundApproverRoles r"
  "NotifySlackChannels (set_ttls op r d) = NotifySlackChannels r"
  by (simp_all add: set_ttls_def)

lemma truncate_max_ttl_fields:
  "SecretPathMethod (snd (truncate_max_ttl M r)) = SecretPathMethod r"
  "SecretData (snd (truncate_max_ttl M r)) = SecretData r"
  "SecretTTL (snd (truncate_max_ttl M r)) = SecretTTL r"
  "SecretMaxTTL (snd (truncate_max_ttl M r)) = (if SecretMaxTTL r > M then M else SecretMaxTTL r)"
  "MinApprovers (snd (truncate_max_ttl M r)) = MinApprovers r"
  "BoundRequesterIDs (snd (truncate_max_ttl M r)) = BoundRequesterIDs r"
  "BoundRequesterRoles (snd (truncate_max_ttl M r)) = BoundRequesterRoles r"
  "BoundApproverIDs (snd (truncate_max_ttl M r)) = BoundApproverIDs r"
  "BoundApproverRoles (snd (truncate_max_ttl M r)) = BoundApproverRoles r"
  "NotifySlackChannels (snd (truncate_max_ttl M r)) = NotifySlackChannels r"
  "fst (truncate_max_ttl M r) = (if SecretMaxTTL r > M then Some max_ttl_warning else None)"
  by (simp_all add: truncate_max_ttl_def)

lemma set_lease_and_approvers_fields:
  "SecretPathMethod (set_lease_and_approvers r d) = SecretPathMethod r"
  "SecretData (set_lease_and_approvers r d) = SecretData r"
  "SecretTTL (set_lease_and_approvers r d) = SecretTTL r"
  "SecretMaxTTL (set_lease_and_approvers r d) = SecretMaxTTL r"
  "MinApprovers (set_lease_and_approvers r d) =
     (case fd_min_approvers d of Some n \<Rightarrow> n
      | None \<Rightarrow> if MinApprovers r = 0 then 1 else MinApprovers r)"
  "BoundRequesterIDs (set_lease_and_approvers r d) = BoundRequesterIDs r"
  "BoundRequesterRoles (set_lease_and_approvers r d) = BoundRequesterRoles r"
  "BoundApproverIDs (set_lease_and_approvers r d) = BoundApproverIDs r"
  "BoundApproverRoles (set_lease_and_approvers r d) = BoundApproverRoles r"
  "NotifySlackChannels (set_lease_and_approvers r d) = NotifySlackChannels r"
  by (simp_all add: set_lease_and_approvers_def)

lemma set_bounds_fields:
  "SecretPathMethod (set_bounds r d) = SecretPathMethod r"
  "SecretData (set_bounds r d) = SecretData r"
  "SecretTTL (set_bounds r d) = SecretTTL r"
  "SecretMaxTTL (set_bounds r d) = SecretMaxTTL r"
  "MinApprovers (set_bounds r d) = MinApprovers r"
  "BoundRequesterIDs (set_bounds r d) = GetOk_or (fd_bound_requester_ids d) (BoundRequesterIDs r)"
  "BoundRequesterRoles (set_bounds r d) = GetOk_or (fd_bound_requester_roles d) (BoundRequesterRoles r)"
  "BoundApproverIDs (set_bounds r d) = GetOk_or (fd_bound_approver_ids d) (BoundApproverIDs r)"
  "BoundApproverRoles (set_bounds r d) = GetOk_or (fd_bound_approver_roles d) (BoundApproverRoles r)"
  "NotifySlackChannels (set_bounds r d) = GetOk_or (fd_notify_slack_channels d) (NotifySlackChannels r)"
  by (simp_all add: set_bounds_def)

lemmas block_fields = set_path_and_method_fields set_secret_data_fields
  set_secret_details_fields set_ttls_fields truncate_max_ttl_fields
  set_lease_and_approvers_fields set_bounds_fields

lemma role_or_new_fields:
  "SecretPathMethod (role_or_new None) = []" "MinApprovers (role_or_new None) = 0"
  "SecretTTL (role_or_new None) = 0" "SecretMaxTTL (role_or_new None) = 0"
  "role_or_new (Some r) = r"
  by (simp_all add: role_or_new_def zero_role_def)

lemma effective_values:
  "SecretPathMethod (set_path_and_method (role_or_new old) d) = effective_method old d"
  "SecretTTL (set_ttls op (set_secret_details (set_secret_data (set_path_and_method (role_or_new old) d) d) d) d)
     = effective_ttl op old d"
  "SecretMaxTTL (set_ttls op (set_secret_details (set_secret_data (set_path_and_method (role_or_new old) d) d) d) d)
     = effective_max_ttl op old d"
  by (cases old; simp add: block_fields role_or_new_fields effective_method_def effective_ttl_def
        effective_max_ttl_def split: option.splits)+

lemma effective_approvers:
  "MinApprovers r = MinApprovers (role_or_new old) \<Longrightarrow>
     MinApprovers (set_lease_and_approvers r d) = effective_min_approvers old d"
  by (cases old; simp add: block_fields role_or_new_fields effective_min_approvers_def
        split: option.splits)

lemma role_from_fields_cases:
  "role_from_fields M op (role_or_new old) d =
     (if effective_method old d \<noteq> ''POST'' \<and> effective_method old d \<noteq> ''GET''
      then Inl errBadSecretPathMethod
      else if effective_method old d = ''GET'' \<and> fd_secret_data d \<noteq> None
      then Inl errBadSecretDataMethod
      else if effective_max_ttl op old d > 0 \<and> effective_ttl op old d > effective_max_ttl op old d
      then Inl errTTLGreaterThanMax
      else if effective_min_approvers old d < 1
      then Inl errBadMinApprovers
      else Inr (if effective_max_ttl op old d > M then Some max_ttl_warning else None,
                set_bounds (set_lease_and_approvers (snd (truncate_max_ttl M
                  (set_ttls op (set_secret_details (set_secret_data
                     (set_path_and_method (role_or_new old) d) d) d) d))) d) d))"
proof -
  let ?r3 = "set_ttls op (set_secret_details (set_secret_data
                     (set_path_and_method (role_or_new old) d) d) d) d"
  have ma: "MinApprovers (set_lease_and_approvers (snd (truncate_max_ttl M ?r3)) d)
      = effective_min_approvers old d"
    by (rule effective_approvers) (simp add: block_fields)
  show ?thesis
    unfolding role_from_fields_def Let_def
    by (simp add: effective_values set_secret_data_fields split_beta ma
          truncate_max_ttl_fields(11))
qed

lemma role_from_fields_rejected:
  "(\<exists>e. role_from_fields M op (role_or_new old) d = Inl e) \<longleftrightarrow> rejected op old d"
  unfolding role_from_fields_cases rejected_def by auto

lemma role_from_fields_IsError:
  "role_from_fields M op (role_or_new old) d = Inl e \<Longrightarrow> IsError e"
  unfolding role_from_fields_cases
  by (auto simp: IsError_def ErrorResponse_def errBadSecretPathMethod_def
        errBadMinApprovers_def errBadSecretDataMethod_def errTTLGreaterThanMax_def
        split: if_splits)

lemma role_from_fields_resp:
  "role_from_fields M op (role_or_new old) d = Inr (resp, role) \<Longrightarrow>
     resp = (if effective_max_ttl op old d > M then Some max_ttl_warning else None)"
  unfolding role_from_fields_cases by (auto split: if_splits)

lemma not_IsError_warning: "\<not> IsError max_ttl_warning"
  by (simp add: IsError_def max_ttl_warning_def)

lemma pathRoleCreateUpdate_loaded:
  assumes "backend_role js s (fd_name d) = Inr old"
  shows "pathRoleCreateUpdate js M s op d =
     (case role_from_fields M op (role_or_new old) d of
        Inl errResp \<Rightarrow> ((Some errResp, None), s)
      | Inr (resp, role) \<Rightarrow>
          ((resp, fst (accessor_put ''role'' s (Marshal js) role [fd_name d])),
           snd (accessor_put ''role'' s (Marshal js) role [fd_name d])))"
  using assms by (simp add: pathRoleCreateUpdate_def split: sum.splits prod.splits)

lemma accessor_put_stores:
  assumes "json data = Inr (Some doc)" "\<not> unavailable s OpPut (accessor_key path subkeys)"
  shows "accessor_put path s json data subkeys =
           (None, s\<lparr>entries := AList.update (accessor_key path subkeys) doc (entries s)\<rparr>)"
  using assms by (simp add: accessor_put_def storage_Put_def)

lemma accessor_put_fails:
  "fst (accessor_put path s json data subkeys) \<noteq> None \<Longrightarrow>
     snd (accessor_put path s json data subkeys) = s"
  by (auto simp: accessor_put_def storage_Put_def Let_def split: sum.splits option.splits if_splits)

text \<open>
  C2, as the code has it. When the stored role can be read, the create/update returns an
  error response exactly when the effective approver count is below 1, the effective
  method is neither GET nor POST, secret data is supplied (a map with or without
  entries) while the effective method is GET, or the effective TTL is above a positive
  effective maximum TTL; the store is then left as it was. Otherwise the role goes to
  the accessor's put: when the encoder and the store's put succeed the role is stored
  under the role's key and no error is returned.
\<close>

theorem role_create_update_rejection:
  assumes "backend_role js s (fd_name d) = Inr old"
  shows "((\<exists>resp. fst (pathRoleCreateUpdate js M s op d) = (Some resp, None) \<and> IsError resp)
            \<longleftrightarrow> rejected op old d)
       \<and> (rejected op old d \<longrightarrow> snd (pathRoleCreateUpdate js M s op d) = s)
       \<and> (\<not> rejected op old d \<longrightarrow>
            (\<exists>resp role.
               role_from_fields M op (role_or_new old) d = Inr (resp, role)
               \<and> pathRoleCreateUpdate js M s op d =
                   ((resp, fst (accessor_put ''role'' s (Marshal js) role [fd_name d])),
                    snd (accessor_put ''role'' s (Marshal js) role [fd_name d]))
               \<and> (\<forall>doc. Marshal js role = Inr (Some doc)
                      \<and> \<not> unavailable s OpPut (accessor_key ''role'' [fd_name d]) \<longrightarrow>
                    pathRoleCreateUpdate js M s op d =
                      ((resp, None),
                       s\<lparr>entries :=
                           AList.update (accessor_key ''role'' [fd_name d]) doc (entries s)\<rparr>))))"
proof (cases "rejected op old d")
  case True
  then obtain e where e: "role_from_fields M op (role_or_new old) d = Inl e"
    using role_from_fields_rejected by blast
  then have "IsError e" by (rule role_from_fields_IsError)
  with True e show ?thesis
    by (simp add: pathRoleCreateUpdate_loaded [OF assms])
next
  case False
  then have "\<nexists>e. role_from_fields M op (role_or_new old) d = Inl e"
    using role_from_fields_rejected by blast
  then obtain resp role where r: "role_from_fields M op (role_or_new old) d = Inr (resp, role)"
    by (cases "role_from_fields M op (role_or_new old) d") auto
  then have resp: "resp = None \<or> resp = Some max_ttl_warning"
    using role_from_fields_resp by fastforce
  have res: "pathRoleCreateUpdate js M s op d =
      ((resp, fst (accessor_put ''role'' s (Marshal js) role [fd_name d])),
       snd (accessor_put ''role'' s (Marshal js) role [fd_name d]))"
    using r by (simp add: pathRoleCreateUpdate_loaded [OF assms])
  have "\<not> (\<exists>x. fst (pathRoleCreateUpdate js M s op d) = (Some x, None) \<and> IsError x)"
    using resp res not_IsError_warning by auto
  moreover have "\<forall>doc. Marshal js role = Inr (Some doc)
        \<and> \<not> unavailable s OpPut (accessor_key ''role'' [fd_name d]) \<longrightarrow>
      pathRoleCreateUpdate js M s op d =
        ((resp, None),
         s\<lparr>entries := AList.update (accessor_key ''role'' [fd_name d]) doc (entries s)\<rparr>)"
    using res by (auto simp: accessor_put_stores)
  ultimately show ?thesis using False r res by blast
qed

lemma update_success:
  assumes load: "backend_role js s (fd_name d) = Inr old"
      and res: "pathRoleCreateUpdate js M s op d = ((resp, None), s')"
      and ok: "\<forall>r. resp = Some r \<longrightarrow> \<not> IsError r"
  obtains role doc where
    "role_from_fields M op (role_or_new old) d = Inr (resp, role)"
    "Marshal js role = Inr (Some doc)"
    "s' = s\<lparr>entries := AList.update (accessor_key ''role'' [fd_name d]) doc (entries s)\<rparr>"
proof -
  have "\<not> rejected op old d"
  proof
    assume "rejected op old d"
    then obtain e where e: "role_from_fields M op (role_or_new old) d = Inl e"
      using role_from_fields_rejected by blast
    then have "IsError e" by (rule role_from_fields_IsError)
    moreover have "resp = Some e"
      using res e by (simp add: pathRoleCreateUpdate_loaded [OF load])
    ultimately show False using ok by blast
  qed
  then have "\<nexists>e. role_from_fields M op (role_or_new old) d = Inl e"
    using role_from_fields_rejected by blast
  then obtain resp' role where r: "role_from_fields M op (role_or_new old) d = Inr (resp', role)"
    by (cases "role_from_fields M op (role_or_new old) d") auto
  with res have eq: "resp' = resp"
      "accessor_put ''role'' s (Marshal js) role [fd_name d] = (None, s')"
    by (simp_all add: pathRoleCreateUpdate_loaded [OF load] prod_eq_iff)
  then obtain doc where doc: "Marshal js role = Inr (Some doc)"
      "s' = s\<lparr>entries := AList.update (accessor_key ''role'' [fd_name d]) doc (entries s)\<rparr>"
    by (auto simp: accessor_put_def storage_Put_def Let_def
          split: sum.splits option.splits if_splits)
  with r eq that show thesis by blast
qed


text \<open>
  C10. After a successful update of an existing role: when the request leaves out
  \<^verbatim>\<open>secret_data\<close> the written role has none (nil); when it leaves out a bound
  requester or approver list or the Slack channels, the written role has the stored
  value of that field.
\<close>

theorem update_omitted_fields:
  assumes load: "backend_role js s (fd_name d) = Inr (Some r0)"
      and res: "pathRoleCreateUpdate js M s op d = ((resp, None), s')"
      and ok: "\<forall>r. resp = Some r \<longrightarrow> \<not> IsError r"
  shows "\<exists>role doc.
           Marshal js role = Inr (Some doc)
         \<and> map_of (entries s') (accessor_key ''role'' [fd_name d]) = Some doc
         \<and> (fd_secret_data d = None \<longrightarrow> SecretData role = None)
         \<and> (fd_bound_requester_ids d = None \<longrightarrow> BoundRequesterIDs role = BoundRequesterIDs r0)
         \<and> (fd_bound_requester_roles d = None \<longrightarrow>
               BoundRequesterRoles role = BoundRequesterRoles r0)
         \<and> (fd_bound_approver_ids d = None \<longrightarrow> BoundApproverIDs role = BoundApproverIDs r0)
         \<and> (fd_bound_approver_roles d = None \<longrightarrow>
               BoundApproverRoles role = BoundApproverRoles r0)
         \<and> (fd_notify_slack_channels d = None \<longrightarrow>
               NotifySlackChannels role = NotifySlackChannels r0)"
proof -
  from load res ok obtain role doc where
    r: "role_from_fields M op (role_or_new (Some r0)) d = Inr (resp, role)" and
    doc: "Marshal js role = Inr (Some doc)" and
    s': "s' = s\<lparr>entries := AList.update (accessor_key ''role'' [fd_name d]) doc (entries s)\<rparr>"
    by (rule update_success)
  have stored: "map_of (entries s') (accessor_key ''role'' [fd_name d]) = Some doc"
    by (simp add: s' update_conv')
  from r have role: "role = set_bounds (set_lease_and_approvers (snd (truncate_max_ttl M
        (set_ttls op (set_secret_details (set_secret_data
           (set_path_and_method r0 d) d) d) d))) d) d"
    unfolding role_from_fields_cases by (auto simp: role_or_new_def split: if_splits)
  have "SecretData role = fd_secret_data d"
    unfolding role by (simp add: block_fields)
  moreover have "BoundRequesterIDs role = GetOk_or (fd_bound_requester_ids d) (BoundRequesterIDs r0)"
    unfolding role by (simp add: block_fields)
  moreover have "BoundRequesterRoles role
      = GetOk_or (fd_bound_requester_roles d) (BoundRequesterRoles r0)"
    unfolding role by (simp add: block_fields)
  moreover have "BoundApproverIDs role = GetOk_or (fd_bound_approver_ids d) (BoundApproverIDs r0)"
    unfolding role by (simp add: block_fields)
  moreover have "BoundApproverRoles role
      = GetOk_or (fd_bound_approver_roles d) (BoundApproverRoles r0)"
    unfolding role by (simp add: block_fields)
  moreover have "NotifySlackChannels role
      = GetOk_or (fd_notify_slack_channels d) (NotifySlackChannels r0)"
    unfolding role by (simp add: block_fields)
  ultimately show ?thesis using doc stored by (auto simp: GetOk_or_def)
qed

lemma load_empty: "backend_role plain_json empty_store name = Inr None"
  by (simp add: backend_role_def accessor_get_def storage_Get_def empty_store_def)

text \<open>
  C2, as stated, fails: a create that supplies \<^verbatim>\<open>secret_data\<close> as a map with no
  entries, with the default method GET, is refused with "bad method for secret_data",
  although none of the four conditions of the claim holds (the map is empty).
\<close>

theorem empty_secret_data_rejected:
  "fst (pathRoleCreateUpdate plain_json (seconds 86400) empty_store CreateOperation
          empty_data_request) = (Some errBadSecretDataMethod, None)
   \<and> IsError errBadSecretDataMethod
   \<and> snd (pathRoleCreateUpdate plain_json (seconds 86400) empty_store CreateOperation
          empty_data_request) = empty_store
   \<and> fd_secret_data empty_data_request = Some []
   \<and> \<not> rejected_as_claimed CreateOperation None empty_data_request"
proof -
  have load: "backend_role plain_json empty_store (fd_name empty_data_request) = Inr None"
    by (rule load_empty)
  have eff: "effective_method None empty_data_request = ''GET''"
      "effective_min_approvers None empty_data_request = 1"
      "effective_ttl CreateOperation None empty_data_request = seconds 28800"
      "effective_max_ttl CreateOperation None empty_data_request = seconds 43200"
      "fd_secret_data empty_data_request = Some []"
    by (simp_all add: effective_method_def effective_min_approvers_def effective_ttl_def
          effective_max_ttl_def empty_data_request_def no_fields_def)
  have secs: "seconds 28800 = 28800000000000" "seconds 43200 = 43200000000000"
    by (simp_all add: seconds_def int64_def)
  have r: "role_from_fields (seconds 86400) CreateOperation (role_or_new None)
             empty_data_request = Inl errBadSecretDataMethod"
    unfolding role_from_fields_cases by (simp add: eff)
  have res: "pathRoleCreateUpdate plain_json (seconds 86400) empty_store CreateOperation
          empty_data_request = ((Some errBadSecretDataMethod, None), empty_store)"
    by (simp add: pathRoleCreateUpdate_loaded [OF load] r)
  have err: "IsError errBadSecretDataMethod"
    by (simp add: IsError_def errBadSecretDataMethod_def ErrorResponse_def)
  have nc: "\<not> rejected_as_claimed CreateOperation None empty_data_request"
    by (simp add: rejected_as_claimed_def eff secs)
  show ?thesis using res err nc eff(5) by simp
qed

lemma pathRoleCreateUpdate_accepts:
  assumes "backend_role js s (fd_name d) = Inr old"
      and "role_from_fields M op (role_or_new old) d = Inr (resp, role)"
      and "Marshal js role = Inr (Some doc)"
      and "\<not> unavailable s OpPut (accessor_key ''role'' [fd_name d])"
  shows "pathRoleCreateUpdate js M s op d =
           ((resp, None),
            s\<lparr>entries := AList.update (accessor_key ''role'' [fd_name d]) doc (entries s)\<rparr>)"
  using assms by (simp add: pathRoleCreateUpdate_loaded accessor_put_stores)

lemma admin_key: "accessor_key ''role'' [''K8s-Admin''] = ''role/k8s-admin''"
  by (simp add: path_Join_def path_Clean_def ToLower_def ToLower_char_def upper_letters_def
        lower_letters_def)

lemma seconds_values:
  "seconds 3600 = 3600000000000" "seconds 14400 = 14400000000000"
  "seconds 28800 = 28800000000000" "seconds 43200 = 43200000000000"
  "seconds 86400 = 86400000000000" "seconds 172800 = 172800000000000"
  by (simp_all add: seconds_def int64_def)

lemma admin_request_effective:
  "effective_method None admin_request = ''POST''"
  "effective_min_approvers None admin_request = 2"
  "effective_ttl CreateOperation None admin_request = seconds 28800"
  "effective_max_ttl CreateOperation None admin_request = seconds 172800"
  "fd_name admin_request = ''K8s-Admin''"
  by (simp_all add: effective_method_def effective_min_approvers_def effective_ttl_def
        effective_max_ttl_def admin_request_def no_fields_def)


text \<open>The theorem of C2 at an accepted and at a refused request.\<close>

theorem role_create_update_rejection_witness:
  "backend_role plain_json empty_store (fd_name admin_request) = Inr None
   \<and> \<not> rejected CreateOperation None admin_request
   \<and> (\<exists>resp role.
         role_from_fields (seconds 86400) CreateOperation (role_or_new None) admin_request
           = Inr (resp, role)
         \<and> pathRoleCreateUpdate plain_json (seconds 86400) empty_store CreateOperation
             admin_request
           = ((resp, None), empty_store\<lparr>entries := [(''role/k8s-admin'', role)]\<rparr>))
   \<and> backend_role plain_json empty_store (fd_name empty_data_request) = Inr None
   \<and> rejected CreateOperation None empty_data_request
   \<and> (\<exists>resp. fst (pathRoleCreateUpdate plain_json (seconds 86400) empty_store
                CreateOperation empty_data_request) = (Some resp, None) \<and> IsError resp)
   \<and> snd (pathRoleCreateUpdate plain_json (seconds 86400) empty_store
                CreateOperation empty_data_request) = empty_store"
proof -
  have load: "backend_role plain_json empty_store (fd_name admin_request) = Inr None"
    by (rule load_empty)
  have acc: "\<not> rejected CreateOperation None admin_request"
    by (simp add: rejected_def admin_request_effective seconds_values)
  have put: "\<And>role. Marshal plain_json role = Inr (Some role)
      \<and> \<not> unavailable (empty_store :: roleStorageEntry storage) OpPut
            (accessor_key ''role'' [fd_name admin_request])"
    by (simp add: plain_json_def empty_store_def del: accessor_key.simps)
  have upd: "\<And>role. (empty_store :: roleStorageEntry storage)
      \<lparr>entries := AList.update (accessor_key ''role'' [fd_name admin_request]) role
         (entries empty_store)\<rparr> = empty_store\<lparr>entries := [(''role/k8s-admin'', role)]\<rparr>"
    by (simp add: admin_request_effective admin_key empty_store_def
          del: accessor_key.simps)
  have a: "\<exists>resp role.
         role_from_fields (seconds 86400) CreateOperation (role_or_new None) admin_request
           = Inr (resp, role)
         \<and> pathRoleCreateUpdate plain_json (seconds 86400) empty_store CreateOperation
             admin_request
           = ((resp, None), empty_store\<lparr>entries := [(''role/k8s-admin'', role)]\<rparr>)"
    using role_create_update_rejection [OF load, of "seconds 86400" CreateOperation] acc put upd
    by metis
  have load': "backend_role plain_json empty_store (fd_name empty_data_request) = Inr None"
    by (rule load_empty)
  have rej: "rejected CreateOperation None empty_data_request"
    by (simp add: rejected_def effective_method_def empty_data_request_def no_fields_def)
  have b: "(\<exists>resp. fst (pathRoleCreateUpdate plain_json (seconds 86400) empty_store
                CreateOperation empty_data_request) = (Some resp, None) \<and> IsError resp)
     \<and> snd (pathRoleCreateUpdate plain_json (seconds 86400) empty_store
                CreateOperation empty_data_request) = empty_store"
    using role_create_update_rejection [OF load', of "seconds 86400" CreateOperation] rej
    by blast
  show ?thesis using load acc a load' rej b by blast
qed

lemma path_only_request_fields:
  "fd_name path_only_request = ''K8s-Admin''"
  "fd_secret_path_method path_only_request = None"
  "fd_secret_data path_only_request = None"
  "fd_secret_ttl path_only_request = None"
  "fd_secret_max_ttl path_only_request = None"
  "fd_min_approvers path_only_request = None"
  "fd_bound_requester_ids path_only_request = None"
  "fd_bound_requester_roles path_only_request = None"
  "fd_bound_approver_ids path_only_request = None"
  "fd_bound_approver_roles path_only_request = None"
  "fd_notify_slack_channels path_only_request = None"
  by (simp_all add: path_only_request_def no_fields_def)

lemma admin_role_fields:
  "SecretPathMethod admin_role = ''POST''"
  "SecretData admin_role = Some [(''alt_names'', GoString ''example.com'')]"
  "SecretTTL admin_role = seconds 3600"
  "SecretMaxTTL admin_role = seconds 14400"
  "MinApprovers admin_role = 2"
  "BoundRequesterIDs admin_role = [''alice'']"
  "BoundRequesterRoles admin_role = [''dev'']"
  "BoundApproverIDs admin_role = [''gd40qy'', ''bc12po'']"
  "BoundApproverRoles admin_role = [''sre'', ''security'']"
  "NotifySlackChannels admin_role = [''#ops'']"
  by (simp_all add: admin_role_def zero_role_def)

lemma load_admin:
  "backend_role plain_json admin_store (fd_name path_only_request) = Inr (Some admin_role)"
  by (simp add: backend_role_def accessor_get_def storage_Get_def admin_store_def
        empty_store_def plain_json_def path_only_request_fields admin_key
        del: accessor_key.simps)

lemma path_only_update_effective:
  "effective_method (Some admin_role) path_only_request = ''POST''"
  "effective_min_approvers (Some admin_role) path_only_request = 2"
  "effective_ttl UpdateOperation (Some admin_role) path_only_request = seconds 3600"
  "effective_max_ttl UpdateOperation (Some admin_role) path_only_request = seconds 14400"
  by (simp_all add: effective_method_def effective_min_approvers_def effective_ttl_def
        effective_max_ttl_def path_only_request_fields admin_role_fields)

lemma path_only_update_accepted:
  "\<exists>role. pathRoleCreateUpdate plain_json (seconds 86400) admin_store UpdateOperation
       path_only_request =
     ((None, None), admin_store\<lparr>entries := [(''role/k8s-admin'', role)]\<rparr>)"
proof -
  obtain role where r: "role_from_fields (seconds 86400) UpdateOperation
      (role_or_new (Some admin_role)) path_only_request = Inr (None, role)"
    unfolding role_from_fields_cases
    by (simp add: path_only_update_effective path_only_request_fields seconds_values)
  have "pathRoleCreateUpdate plain_json (seconds 86400) admin_store UpdateOperation
       path_only_request =
     ((None, None),
      admin_store\<lparr>entries := AList.update (accessor_key ''role'' [fd_name path_only_request])
         role (entries admin_store)\<rparr>)"
    using load_admin r
    by (rule pathRoleCreateUpdate_accepts)
       (simp_all add: plain_json_def empty_store_def admin_store_def del: accessor_key.simps)
  then show ?thesis
    by (auto simp: path_only_request_fields admin_key empty_store_def admin_store_def
          simp del: accessor_key.simps)
qed


text \<open>The theorem of C10 at an update of the stored admin role that supplies the path only.\<close>

theorem update_omitted_fields_witness:
  "backend_role plain_json admin_store (fd_name path_only_request) = Inr (Some admin_role)
   \<and> fst (pathRoleCreateUpdate plain_json (seconds 86400) admin_store UpdateOperation
            path_only_request) = (None, None)
   \<and> SecretData admin_role \<noteq> None
   \<and> (\<exists>role. map_of (entries (snd (pathRoleCreateUpdate plain_json (seconds 86400) admin_store
                  UpdateOperation path_only_request))) ''role/k8s-admin'' = Some role
          \<and> SecretData role = None
          \<and> BoundRequesterIDs role = [''alice'']
          \<and> BoundRequesterRoles role = [''dev'']
          \<and> BoundApproverIDs role = [''gd40qy'', ''bc12po'']
          \<and> BoundApproverRoles role = [''sre'', ''security'']
          \<and> NotifySlackChannels role = [''#ops''])"
proof -
  let ?run = "pathRoleCreateUpdate plain_json (seconds 86400) admin_store UpdateOperation
            path_only_request"
  have res: "?run = ((None, None), snd ?run)"
    using path_only_update_accepted by auto
  have ok: "\<forall>r. (None :: response option) = Some r \<longrightarrow> \<not> IsError r"
    by simp
  have key: "accessor_key ''role'' [fd_name path_only_request] = ''role/k8s-admin''"
    by (simp add: path_only_request_fields admin_key del: accessor_key.simps)
  have "\<exists>role. map_of (entries (snd ?run)) ''role/k8s-admin'' = Some role
          \<and> SecretData role = None
          \<and> BoundRequesterIDs role = [''alice'']
          \<and> BoundRequesterRoles role = [''dev'']
          \<and> BoundApproverIDs role = [''gd40qy'', ''bc12po'']
          \<and> BoundApproverRoles role = [''sre'', ''security'']
          \<and> NotifySlackChannels role = [''#ops'']"
    using update_omitted_fields [OF load_admin res ok]
    unfolding key
    by (auto simp: plain_json_def path_only_request_fields admin_role_fields)
  with load_admin res show ?thesis
    by (metis admin_role_fields(2) fst_conv option.distinct(1))
qed

subsection \<open>Keys, namespaces and the accessor\<close>

lemma split_slash_no_slash: "CHR ''/'' \<notin> set s \<Longrightarrow> split_slash s = [s]"
  by (induction s) auto

lemma split_slash_append:
  "CHR ''/'' \<notin> set a \<Longrightarrow> split_slash (a @ CHR ''/'' # b) = a # split_slash b"
  by (induction a) auto

lemma split_join_slash:
  "es \<noteq> [] \<Longrightarrow> \<forall>e \<in> set es. CHR ''/'' \<notin> set e \<Longrightarrow> split_slash (join_slash es) = es"
proof (induction es rule: join_slash.induct)
  case 1
  then show ?case by simp
next
  case (2 e)
  then show ?case by (simp add: split_slash_no_slash)
next
  case (3 e e' es)
  then show ?case by (simp add: split_slash_append)
qed

lemma clean_elems_plain:
  "\<forall>e \<in> set es. plain e \<Longrightarrow> clean_elems rooted out es = out @ es"
  by (induction es arbitrary: out) (auto simp: plain_def)

lemma join_slash_empty: "es \<noteq> [] \<Longrightarrow> \<forall>e \<in> set es. e \<noteq> [] \<Longrightarrow> join_slash es \<noteq> []"
  by (induction es rule: join_slash.induct) auto

lemma join_slash_hd: "es \<noteq> [] \<Longrightarrow> hd es \<noteq> [] \<Longrightarrow> hd (join_slash es) = hd (hd es)"
  by (induction es rule: join_slash.induct) auto

lemma path_Clean_plain:
  assumes "es \<noteq> []" "\<forall>e \<in> set es. plain e"
  shows "path_Clean (join_slash es) = join_slash es"
proof -
  from assms have ne: "join_slash es \<noteq> []"
    by (intro join_slash_empty) (auto simp: plain_def)
  from assms have "hd es \<in> set es" by simp
  with assms have "plain (hd es)" by blast
  then have "hd (hd es) \<noteq> CHR ''/''" "hd es \<noteq> []"
    by (cases "hd es"; auto simp: plain_def)+
  with assms have nr: "hd (join_slash es) \<noteq> CHR ''/''"
    by (simp add: join_slash_hd)
  from assms have sp: "split_slash (join_slash es) = es"
    by (intro split_join_slash) (auto simp: plain_def)
  show ?thesis
    using ne nr assms by (simp add: path_Clean_def sp clean_elems_plain)
qed

lemma join_slash_snoc:
  "es \<noteq> [] \<Longrightarrow> join_slash (es @ [x]) = join_slash es @ ''/'' @ x"
  by (induction es rule: join_slash.induct) auto

lemma path_Join_plain:
  assumes "es \<noteq> []" "\<forall>e \<in> set es. plain e" "plain x"
  shows "path_Join [join_slash es, x] = join_slash (es @ [x])"
proof -
  have a: "join_slash es \<noteq> []" using assms by (intro join_slash_empty) (auto simp: plain_def)
  have b: "x \<noteq> []" using assms by (simp add: plain_def)
  have "path_Clean (join_slash (es @ [x])) = join_slash (es @ [x])"
    using assms by (intro path_Clean_plain) auto
  then show ?thesis using a b assms(1)
    by (simp add: path_Join_def join_slash_snoc)
qed

lemma ToLower_char_slash: "ToLower_char c = CHR ''/'' \<longleftrightarrow> c = CHR ''/''"
  by (simp add: ToLower_char_def upper_letters_def lower_letters_def)

lemma ToLower_char_slash': "CHR ''/'' = ToLower_char c \<longleftrightarrow> c = CHR ''/''"
  using ToLower_char_slash [of c] by auto

lemma ToLower_char_dot: "ToLower_char c = CHR ''.'' \<longleftrightarrow> c = CHR ''.''"
  by (simp add: ToLower_char_def upper_letters_def lower_letters_def)

lemma ToLower_no_slash: "CHR ''/'' \<in> set (ToLower s) \<longleftrightarrow> CHR ''/'' \<in> set s"
  by (induction s) (auto simp: ToLower_def ToLower_char_slash')

lemma plain_ToLower: "plain (ToLower s) \<longleftrightarrow> plain s"
proof -
  have "ToLower s = ''.'' \<longleftrightarrow> s = ''.''"
    by (cases s) (auto simp: ToLower_def ToLower_char_dot)
  moreover have "ToLower s = ''..'' \<longleftrightarrow> s = ''..''"
    by (cases s) (auto simp: ToLower_def ToLower_char_dot)
  ultimately show ?thesis
    by (simp add: plain_def ToLower_no_slash) (simp add: ToLower_def)
qed

lemma accessor_key_plain:
  "es \<noteq> [] \<Longrightarrow> \<forall>e \<in> set es. plain e \<Longrightarrow> \<forall>k \<in> set ks. plain k \<Longrightarrow>
     accessor_key (join_slash es) ks = join_slash (es @ map ToLower ks)"
proof (induction ks arbitrary: es)
  case Nil
  then show ?case by simp
next
  case (Cons k ks)
  have "path_Join [join_slash es, ToLower k] = join_slash (es @ [ToLower k])"
    using Cons.prems by (intro path_Join_plain) (auto simp: plain_ToLower)
  moreover have "accessor_key (join_slash (es @ [ToLower k])) ks
      = join_slash ((es @ [ToLower k]) @ map ToLower ks)"
    using Cons.prems by (intro Cons.IH) (auto simp: plain_ToLower)
  ultimately show ?case by simp
qed







lemma role_key_cases:
  assumes "CHR ''/'' \<notin> set name"
  shows "accessor_key ''role'' [name] = ''role'' \<or> accessor_key ''role'' [name] = ''.''
       \<or> accessor_key ''role'' [name] = ''role/'' @ ToLower name"
proof (cases "ToLower name = []")
  case True
  have "path_Clean ''role'' = ''role''"
    by (simp add: path_Clean_def)
  then show ?thesis using True by (simp add: path_Join_def)
next
  case False
  have ns: "CHR ''/'' \<notin> set (ToLower name)"
    using assms by (simp add: ToLower_no_slash)
  have sp: "split_slash (''role/'' @ ToLower name) = [''role'', ToLower name]"
    using split_slash_append [of "''role''" "ToLower name"] ns
    by (simp add: split_slash_no_slash)
  have j: "path_Join [''role'', ToLower name] = path_Clean (''role/'' @ ToLower name)"
    using False by (simp add: path_Join_def)
  have c: "path_Clean (''role/'' @ ToLower name) =
      (let out = clean_elems False [] [''role'', ToLower name]
       in if out = [] then ''.'' else join_slash out)"
    unfolding path_Clean_def sp [symmetric] by simp
  have "clean_elems False [] [''role'', ToLower name] = [''role'']
      \<or> clean_elems False [] [''role'', ToLower name] = []
      \<or> clean_elems False [] [''role'', ToLower name] = [''role'', ToLower name]"
    using False by simp
  then show ?thesis
    unfolding accessor_key.simps j c by (auto simp: Let_def)
qed

lemma role_key_outside:
  assumes "CHR ''/'' \<notin> set name"
  shows "\<not> in_namespace ''request'' (accessor_key ''role'' [name])"
    and "\<not> in_namespace ''issue'' (accessor_key ''role'' [name])"
  using role_key_cases [OF assms] by (auto simp: in_namespace_def)

lemma pathRoleDelete_store:
  "snd (pathRoleDelete s d) = s
   \<or> snd (pathRoleDelete s d) =
       s\<lparr>entries := AList.delete (accessor_key ''role'' [fd_name d]) (entries s)\<rparr>"
  by (simp add: pathRoleDelete_def accessor_delete_def storage_Delete_def
        del: accessor_key.simps)

lemma filter_delete_other:
  "\<not> P k \<Longrightarrow> filter (\<lambda>e. P (fst e)) (AList.delete k al) = filter (\<lambda>e. P (fst e)) al"
  by (induction al) auto

lemma pair_keys_in_namespace:
  assumes "plain ns" "plain r" "plain n"
  shows "in_namespace ns (accessor_key ns [r, n])"
proof -
  have "accessor_key (join_slash [ns]) [r, n] = join_slash ([ns] @ map ToLower [r, n])"
    using assms by (intro accessor_key_plain) auto
  then show ?thesis by (simp add: in_namespace_def)
qed

text \<open>
  C8. A role delete whose name has no slash (the route pattern admits none) leaves every
  key of the request and issue namespaces as it was, in lookup and in the order of the
  entries; every key other than the role's own is unchanged; and the keys the request
  and issue accessors give to a (role, nonce) pair of plain names lie in those
  namespaces.
\<close>

theorem role_delete_frame:
  assumes "CHR ''/'' \<notin> set (fd_name d)"
  shows "(\<forall>k. in_namespace ''request'' k \<or> in_namespace ''issue'' k \<longrightarrow>
            map_of (entries (snd (pathRoleDelete s d))) k = map_of (entries s) k)
       \<and> filter (\<lambda>e. in_namespace ''request'' (fst e) \<or> in_namespace ''issue'' (fst e))
            (entries (snd (pathRoleDelete s d)))
          = filter (\<lambda>e. in_namespace ''request'' (fst e) \<or> in_namespace ''issue'' (fst e))
              (entries s)
       \<and> (\<forall>k. k \<noteq> accessor_key ''role'' [fd_name d] \<longrightarrow>
            map_of (entries (snd (pathRoleDelete s d))) k = map_of (entries s) k)
       \<and> (\<forall>r n. plain r \<and> plain n \<longrightarrow>
            in_namespace ''request'' (accessor_key ''request'' [r, n])
            \<and> in_namespace ''issue'' (accessor_key ''issue'' [r, n]))"
proof -
  let ?K = "accessor_key ''role'' [fd_name d]"
  let ?P = "\<lambda>k. in_namespace ''request'' k \<or> in_namespace ''issue'' k"
  have out: "\<not> ?P ?K"
    using role_key_outside [OF assms] by blast
  have other: "\<forall>k. k \<noteq> ?K \<longrightarrow>
      map_of (entries (snd (pathRoleDelete s d))) k = map_of (entries s) k"
    using pathRoleDelete_store [of s d] by (auto simp del: accessor_key.simps)
  have a: "\<forall>k. ?P k \<longrightarrow> map_of (entries (snd (pathRoleDelete s d))) k = map_of (entries s) k"
    using out other by metis
  have b: "filter (\<lambda>e. ?P (fst e)) (entries (snd (pathRoleDelete s d)))
      = filter (\<lambda>e. ?P (fst e)) (entries s)"
    using pathRoleDelete_store [of s d] filter_delete_other [of ?P ?K "entries s", OF out]
    by (auto simp del: accessor_key.simps)
  have pl: "plain ''request''" "plain ''issue''"
    by (simp_all add: plain_def)
  have c: "\<forall>r n. plain r \<and> plain n \<longrightarrow>
            in_namespace ''request'' (accessor_key ''request'' [r, n])
            \<and> in_namespace ''issue'' (accessor_key ''issue'' [r, n])"
    using pair_keys_in_namespace pl by blast
  show ?thesis using a b other c by blast
qed

lemma revoke_deletes:
  assumes "map_of (InternalData sec) ''name'' = Some (GoString roleName)" "roleName \<noteq> []"
      and "map_of (InternalData sec) ''nonce'' = Some (GoString nonce)" "nonce \<noteq> []"
      and "\<not> unavailable s OpDelete (accessor_key ''issue'' [roleName, nonce])"
  shows "secretApprovedSecretIssueRevoke s sec =
           (Returns (None, None),
            s\<lparr>entries := AList.delete (accessor_key ''issue'' [roleName, nonce]) (entries s)\<rparr>)"
  using assms
  by (simp add: secretApprovedSecretIssueRevoke_def accessor_delete_def storage_Delete_def
        del: accessor_key.simps)

text \<open>
  C3. Revoking an issued secret whose internal data holds a non-empty role name and
  nonce, on a store whose delete succeeds: the hook returns no response and no error,
  the issue record under (role name, nonce) is absent afterwards and every other key is
  unchanged; when the record is absent already the store is left exactly as it was; and
  a second revoke succeeds in the same way, with no further effect.
\<close>

theorem issue_revoke_idempotent:
  assumes "map_of (InternalData sec) ''name'' = Some (GoString roleName)" "roleName \<noteq> []"
      and "map_of (InternalData sec) ''nonce'' = Some (GoString nonce)" "nonce \<noteq> []"
      and "\<not> unavailable s OpDelete (accessor_key ''issue'' [roleName, nonce])"
  shows "fst (secretApprovedSecretIssueRevoke s sec) = Returns (None, None)
       \<and> map_of (entries (snd (secretApprovedSecretIssueRevoke s sec)))
            (accessor_key ''issue'' [roleName, nonce]) = None
       \<and> (\<forall>k. k \<noteq> accessor_key ''issue'' [roleName, nonce] \<longrightarrow>
            map_of (entries (snd (secretApprovedSecretIssueRevoke s sec))) k
              = map_of (entries s) k)
       \<and> (map_of (entries s) (accessor_key ''issue'' [roleName, nonce]) = None \<longrightarrow>
            snd (secretApprovedSecretIssueRevoke s sec) = s)
       \<and> secretApprovedSecretIssueRevoke (snd (secretApprovedSecretIssueRevoke s sec)) sec
           = (Returns (None, None), snd (secretApprovedSecretIssueRevoke s sec))"
proof -
  let ?K = "accessor_key ''issue'' [roleName, nonce]"
  let ?s' = "s\<lparr>entries := AList.delete ?K (entries s)\<rparr>"
  have first: "secretApprovedSecretIssueRevoke s sec = (Returns (None, None), ?s')"
    using assms by (rule revoke_deletes)
  have "\<not> unavailable ?s' OpDelete ?K"
    using assms(5) by simp
  then have "secretApprovedSecretIssueRevoke ?s' sec =
      (Returns (None, None), ?s'\<lparr>entries := AList.delete ?K (entries ?s')\<rparr>)"
    using assms(1-4) by (intro revoke_deletes)
  then have again: "secretApprovedSecretIssueRevoke ?s' sec = (Returns (None, None), ?s')"
    by (simp add: delete_idem del: accessor_key.simps)
  have gone: "map_of (entries ?s') ?K = None"
    by (simp add: delete_conv' del: accessor_key.simps)
  have absent: "map_of (entries s) ?K = None \<longrightarrow> ?s' = s"
    by (auto simp: map_of_eq_None_iff simp del: accessor_key.simps)
  have other: "\<forall>k. k \<noteq> ?K \<longrightarrow> map_of (entries ?s') k = map_of (entries s) k"
    by (simp del: accessor_key.simps)
  show ?thesis
    unfolding first using again gone absent other by (simp del: accessor_key.simps)
qed




lemma issue_key: "accessor_key ''issue'' [''K8s-Admin'', ''0FBCEB51''] = ''issue/k8s-admin/0fbceb51''"
  by code_simp

text \<open>The theorem of C8 at a store that holds a role, a request and an issue.\<close>

theorem role_delete_frame_witness:
  "CHR ''/'' \<notin> set (fd_name (no_fields ''K8s-Admin''))
   \<and> map_of (entries (snd (pathRoleDelete ledger_store (no_fields ''K8s-Admin''))))
        ''request/k8s-admin/b325b7c8'' = Some ''request document''
   \<and> map_of (entries (snd (pathRoleDelete ledger_store (no_fields ''K8s-Admin''))))
        ''issue/k8s-admin/0fbceb51'' = Some ''issue document''
   \<and> map_of (entries (snd (pathRoleDelete ledger_store (no_fields ''K8s-Admin''))))
        ''role/k8s-admin'' = None"
proof -
  have n: "CHR ''/'' \<notin> set (fd_name (no_fields ''K8s-Admin''))"
    by (simp add: no_fields_def)
  have ns: "in_namespace ''request'' ''request/k8s-admin/b325b7c8''"
      "in_namespace ''issue'' ''issue/k8s-admin/0fbceb51''"
    by (simp_all add: in_namespace_def)
  have before: "map_of (entries ledger_store) ''request/k8s-admin/b325b7c8''
        = Some ''request document''"
      "map_of (entries ledger_store) ''issue/k8s-admin/0fbceb51'' = Some ''issue document''"
    by (simp_all add: ledger_store_def empty_store_def)
  have gone: "map_of (entries (snd (pathRoleDelete ledger_store (no_fields ''K8s-Admin''))))
        ''role/k8s-admin'' = None"
    by (simp add: pathRoleDelete_def accessor_delete_def storage_Delete_def ledger_store_def
          empty_store_def no_fields_def admin_key del: accessor_key.simps)
  have frame: "\<forall>k. in_namespace ''request'' k \<or> in_namespace ''issue'' k \<longrightarrow>
      map_of (entries (snd (pathRoleDelete ledger_store (no_fields ''K8s-Admin'')))) k
        = map_of (entries ledger_store) k"
    using role_delete_frame [OF n, of ledger_store] by (rule conjunct1)
  have "map_of (entries (snd (pathRoleDelete ledger_store (no_fields ''K8s-Admin''))))
        ''request/k8s-admin/b325b7c8'' = Some ''request document''"
    using frame ns(1) before(1) by simp
  moreover have "map_of (entries (snd (pathRoleDelete ledger_store (no_fields ''K8s-Admin''))))
        ''issue/k8s-admin/0fbceb51'' = Some ''issue document''"
    using frame ns(2) before(2) by simp
  ultimately show ?thesis
    using n gone by (intro conjI)
qed

text \<open>The theorem of C3 at the same store and the secret of its issue.\<close>

theorem issue_revoke_idempotent_witness:
  "map_of (InternalData issued_secret) ''name'' = Some (GoString ''K8s-Admin'')
   \<and> map_of (InternalData issued_secret) ''nonce'' = Some (GoString ''0FBCEB51'')
   \<and> \<not> unavailable ledger_store OpDelete ''issue/k8s-admin/0fbceb51''
   \<and> map_of (entries ledger_store) ''issue/k8s-admin/0fbceb51'' = Some ''issue document''
   \<and> fst (secretApprovedSecretIssueRevoke ledger_store issued_secret) = Returns (None, None)
   \<and> map_of (entries (snd (secretApprovedSecretIssueRevoke ledger_store issued_secret)))
        ''issue/k8s-admin/0fbceb51'' = None
   \<and> secretApprovedSecretIssueRevoke
        (snd (secretApprovedSecretIssueRevoke ledger_store issued_secret)) issued_secret
      = (Returns (None, None), snd (secretApprovedSecretIssueRevoke ledger_store issued_secret))"
proof -
  have a: "map_of (InternalData issued_secret) ''name'' = Some (GoString ''K8s-Admin'')"
      "map_of (InternalData issued_secret) ''nonce'' = Some (GoString ''0FBCEB51'')"
    by (simp_all add: issued_secret_def)
  have ne: "''K8s-Admin'' \<noteq> []" "''0FBCEB51'' \<noteq> []"
    by simp_all
  have av: "\<not> unavailable ledger_store OpDelete
      (accessor_key ''issue'' [''K8s-Admin'', ''0FBCEB51''])"
    by (simp add: ledger_store_def empty_store_def del: accessor_key.simps)
  have before: "map_of (entries ledger_store) ''issue/k8s-admin/0fbceb51''
      = Some ''issue document''"
    by (simp add: ledger_store_def empty_store_def)
  show ?thesis
    using issue_revoke_idempotent [OF a(1) ne(1) a(2) ne(2) av] a av before
    unfolding issue_key by simp
qed


subsection \<open>The periodic renewer\<close>

text \<open>
  What holds of the renewer on every input: it never returns an error; and it returns
  nil whenever \<^verbatim>\<open>api.NewClient\<close> does not answer with a nil client.
\<close>

lemma renewer_never_returns_error:
  "newVaultTokenRenewer unmarshal api s \<noteq> Returns (Some e)"
  by (auto simp: newVaultTokenRenewer_def split: sum.splits option.splits outcome.splits prod.splits)

lemma renewer_returns_nil:
  assumes "\<forall>cfg err. NewClient api cfg \<noteq> (None, err)"
  shows "newVaultTokenRenewer unmarshal api s = Returns None"
proof -
  have "newVaultClient api a t \<noteq> Panics \<and> newVaultClient api a t \<noteq> Returns (None, None)" for a t
    using assms
    by (auto simp: newVaultClient_def split: option.splits prod.splits)
  then show ?thesis
    by (auto simp: newVaultTokenRenewer_def split: sum.splits option.splits outcome.splits prod.splits)
qed

text \<open>
  C4, where the code departs from it. With a stored config whose address
  \<^verbatim>\<open>api.NewClient\<close> refuses (a nil client and an error), \<^verbatim>\<open>newVaultClient\<close>
  panics at \<^verbatim>\<open>clt.SetToken\<close>, and so does the periodic function: it does not return
  nil.
\<close>

theorem renewer_panics_when_NewClient_fails:
  "backend_config Inr config_store = Inr (Some stored_config)
   \<and> NewClient rejecting_api
        (\<lparr>config_Error = None, config_Address = ''https://127.0.0.1:8200''\<rparr>
           \<lparr>config_Address := VaultAddr stored_config\<rparr>)
      = (None, Some (ClientFailure ''parse: missing ] in host''))
   \<and> newVaultClient rejecting_api (VaultAddr stored_config) (VaultToken stored_config) = Panics
   \<and> newVaultTokenRenewer Inr rejecting_api config_store = Panics
   \<and> newVaultTokenRenewer Inr rejecting_api config_store \<noteq> Returns None"
  by (simp add: backend_config_def accessor_get_def storage_Get_def config_store_def
        empty_store_def newVaultTokenRenewer_def newVaultClient_def rejecting_api_def
        stored_config_def)

subsection \<open>The approval workflow\<close>

lemma approve_all_result:
  "approve_all rq approvals ttl = Inr rq' \<Longrightarrow>
     rq_approver_ids rq' = rq_approver_ids rq \<union> set (map fst approvals)
     \<and> rq_min_approvers rq' = rq_min_approvers rq
     \<and> rq_requester_id rq' = rq_requester_id rq"
proof (induction approvals arbitrary: rq)
  case Nil
  then show ?case by simp
next
  case (Cons a approvals)
  obtain approver approver_role now where a: "a = (approver, approver_role, now)"
    by (cases a)
  from Cons.prems obtain rq1 where
    one: "approve (Some rq) approver approver_role now ttl = Inr rq1" and
    rest: "approve_all rq1 approvals ttl = Inr rq'"
    by (auto simp: a split: sum.splits)
  from one have "rq_approver_ids rq1 = insert approver (rq_approver_ids rq)"
      "rq_min_approvers rq1 = rq_min_approvers rq" "rq_requester_id rq1 = rq_requester_id rq"
    by (auto simp: approve_def split: if_splits)
  with Cons.IH [OF rest] show ?case by (auto simp: a)
qed

lemma open_request_result:
  "open_request (Some role) requester requester_role lease_active n now ttl = Inr rq \<Longrightarrow>
     rq_approver_ids rq = {} \<and> rq_min_approvers rq = MinApprovers role
     \<and> rq_requester_id rq = requester"
  by (auto simp: open_request_def split: if_splits)

text \<open>
  C1. For a request opened against a role with \<open>MinApprovers role = k\<close>, after any run of
  accepted approvals and while the request has not expired: with the requester as caller
  and the downstream call and notification succeeding, issue succeeds exactly when the
  approvals come from at least k distinct identities; below the threshold issue fails
  with PermissionDenied, whoever calls; and two runs of approvals with the same set of
  identities, in any order and with any repetitions, give the same outcome.
\<close>

theorem issue_needs_distinct_approvers:
  assumes opened: "open_request (Some role) requester requester_role lease_active n t0 ttl = Inr rq0"
      and approved: "approve_all rq0 approvals ttl = Inr rq"
      and alive: "\<not> now > rq_expires_at rq"
      and "downstream = Inr payload" and "notified"
  shows "(issue (Some rq) requester now downstream notified = Inr payload
            \<longleftrightarrow> MinApprovers role \<le> int (card (set (map fst approvals))))
       \<and> (int (card (set (map fst approvals))) < MinApprovers role \<longrightarrow>
            issue (Some rq) caller now downstream notified = Inl PermissionDenied)
       \<and> (\<forall>approvals' rq'. approve_all rq0 approvals' ttl = Inr rq'
              \<and> set (map fst approvals') = set (map fst approvals)
              \<and> \<not> now > rq_expires_at rq' \<longrightarrow>
            issue (Some rq') requester now downstream notified
              = issue (Some rq) requester now downstream notified)"
proof -
  have o: "rq_approver_ids rq0 = {}" "rq_min_approvers rq0 = MinApprovers role"
      "rq_requester_id rq0 = requester"
    using open_request_result [OF opened] by simp_all
  have r: "rq_approver_ids rq = set (map fst approvals)"
      "rq_min_approvers rq = MinApprovers role" "rq_requester_id rq = requester"
    using approve_all_result [OF approved] o by simp_all
  have a: "issue (Some rq) requester now downstream notified = Inr payload
            \<longleftrightarrow> MinApprovers role \<le> int (card (set (map fst approvals)))"
    using alive assms(4,5) r by (auto simp: issue_def)
  have b: "int (card (set (map fst approvals))) < MinApprovers role \<longrightarrow>
            issue (Some rq) caller now downstream notified = Inl PermissionDenied"
    using alive r by (auto simp: issue_def)
  have c: "issue (Some rq') requester now downstream notified
              = issue (Some rq) requester now downstream notified"
    if "approve_all rq0 approvals' ttl = Inr rq'"
       "set (map fst approvals') = set (map fst approvals)" "\<not> now > rq_expires_at rq'"
    for approvals' rq'
  proof -
    have "rq_approver_ids rq' = set (map fst approvals')"
      "rq_min_approvers rq' = MinApprovers role" "rq_requester_id rq' = requester"
      using approve_all_result [OF that(1)] o by simp_all
    then show ?thesis
      using that(2,3) alive r by (simp add: issue_def)
  qed
  show ?thesis using a b c by blast
qed

lemma admin_role_opened:
  "open_request (Some admin_role) ''alice'' ''dev'' False ''b325b7c8'' 0 600 = Inr opened_request"
  by (simp add: open_request_def opened_request_def admin_role_def zero_role_def)

lemma two_approvers_recorded:
  "\<exists>rq. approve_all opened_request two_approvers 600 = Inr rq \<and> rq_expires_at rq = 630"
  by (simp add: two_approvers_def approve_def opened_request_def)

lemma one_approver_recorded:
  "\<exists>rq. approve_all opened_request one_approver 600 = Inr rq \<and> rq_expires_at rq = 620"
  by (simp add: one_approver_def approve_def opened_request_def)

text \<open>The theorem of C1 at the scenario: two identities reach the threshold 2, one does not.\<close>

theorem issue_needs_distinct_approvers_witness:
  "open_request (Some admin_role) ''alice'' ''dev'' False ''b325b7c8'' 0 600 = Inr opened_request
   \<and> MinApprovers admin_role = 2
   \<and> card (set (map fst two_approvers)) = 2
   \<and> (\<exists>rq. approve_all opened_request two_approvers 600 = Inr rq
          \<and> issue (Some rq) ''alice'' 100 (Inr ''certificate'' :: string + string) True
              = Inr ''certificate'')
   \<and> card (set (map fst one_approver)) = 1
   \<and> (\<exists>rq. approve_all opened_request one_approver 600 = Inr rq
          \<and> issue (Some rq) ''alice'' 100 (Inr ''certificate'' :: string + string) True
              = Inl PermissionDenied)"
proof -
  have k: "MinApprovers admin_role = 2"
    by (simp add: admin_role_def zero_role_def)
  have c2: "card (set (map fst two_approvers)) = 2"
    by (simp add: two_approvers_def)
  have c1: "card (set (map fst one_approver)) = 1"
    by (simp add: one_approver_def)
  obtain rq2 where rq2: "approve_all opened_request two_approvers 600 = Inr rq2"
      "rq_expires_at rq2 = 630"
    using two_approvers_recorded by blast
  obtain rq1 where rq1: "approve_all opened_request one_approver 600 = Inr rq1"
      "rq_expires_at rq1 = 620"
    using one_approver_recorded by blast
  have alive: "\<not> 100 > rq_expires_at rq2" "\<not> 100 > rq_expires_at rq1"
    by (simp_all add: rq2 rq1)
  have "issue (Some rq2) ''alice'' 100 (Inr ''certificate'' :: string + string) True
      = Inr ''certificate''"
    using issue_needs_distinct_approvers
      [where payload = "''certificate''" and caller = "''alice''",
       OF admin_role_opened rq2(1) alive(1) refl TrueI] k c2
    by simp
  moreover have "issue (Some rq1) ''alice'' 100 (Inr ''certificate'' :: string + string) True
      = Inl PermissionDenied"
    using issue_needs_distinct_approvers
      [where payload = "''certificate''" and caller = "''alice''",
       OF admin_role_opened rq1(1) alive(2) refl TrueI] k c1
    by simp
  ultimately show ?thesis
    using admin_role_opened k c2 c1 rq2(1) rq1(1) by blast
qed

subsection \<open>Calls that run at the same time\<close>

lemma lock_invariant_start: "lock_invariant (start s requests)"
  by (simp add: lock_invariant_def start_def new_call_def holds_read_def holds_write_def)

lemma one_writer:
  assumes "lock_invariant w" "holds_write (calls w t)" "holds_write (calls w u)"
  shows "u = t"
proof -
  from assms have "writer w = Some t" "writer w = Some u"
    by (simp_all add: lock_invariant_def)
  then show ?thesis by simp
qed

lemma lock_invariant_step:
  assumes "lock_invariant w" "step js M t w = Some w'"
  shows "lock_invariant w'"
proof (cases "position (calls w t)")
  case AtRLock
  with assms show ?thesis
    by (auto simp: step_def Let_def lock_invariant_def holds_read_def holds_write_def
          split: if_splits sum.splits prod.splits)
next
  case InGet
  with assms show ?thesis
    by (auto simp: step_def Let_def lock_invariant_def holds_read_def holds_write_def
          split: if_splits sum.splits prod.splits)
next
  case AtRUnlock
  with assms show ?thesis
    by (auto simp: step_def Let_def lock_invariant_def holds_read_def holds_write_def
          split: if_splits sum.splits prod.splits)
next
  case AtLock
  with assms show ?thesis
    by (auto simp: step_def Let_def lock_invariant_def holds_read_def holds_write_def
          split: if_splits sum.splits prod.splits)
next
  case InPut
  with assms show ?thesis
    by (auto simp: step_def Let_def lock_invariant_def holds_read_def holds_write_def
          split: if_splits sum.splits prod.splits)
next
  case AtUnlock
  then have hw: "holds_write (calls w t)"
    by (simp add: holds_write_def)
  with assms(1) have wt: "writer w = Some t"
    by (simp add: lock_invariant_def)
  have other: "\<not> holds_write (calls w u)" if "u \<noteq> t" for u
    using one_writer [OF assms(1) hw] that by blast
  from assms AtUnlock wt other [unfolded holds_write_def] show ?thesis
    by (auto simp: step_def Let_def lock_invariant_def holds_read_def holds_write_def
          split: if_splits)
next
  case Returned
  with assms show ?thesis by (simp add: step_def Let_def)
qed

lemma lock_invariant_run:
  "lock_invariant w \<Longrightarrow> run js M schedule w = Some w' \<Longrightarrow> lock_invariant w'"
proof (induction schedule arbitrary: w)
  case Nil
  then show ?case by simp
next
  case (Cons t schedule)
  from Cons.prems(2) obtain w1 where s: "step js M t w = Some w1"
      and r: "run js M schedule w1 = Some w'"
    by (auto split: option.splits)
  from Cons.prems(1) s have "lock_invariant w1" by (rule lock_invariant_step)
  then show ?case using r by (rule Cons.IH)
qed

text \<open>
  C5, as the code has it. In every state that a schedule of calls reaches: while a call is
  inside a put (it holds the mutex for writing), no other call is inside a put or a get
  on the namespace, and another call that arrives at its get or its put cannot move;
  and a call that is between its get and its put holds the mutex neither for reading
  nor for writing.
\<close>

theorem accessor_operations_exclusive:
  assumes "run js M schedule (start s requests) = Some w"
  shows "(\<forall>t u. t \<noteq> u \<and> holds_write (calls w t) \<longrightarrow>
            \<not> holds_write (calls w u) \<and> \<not> holds_read (calls w u)
            \<and> (position (calls w u) = AtRLock \<or> position (calls w u) = AtLock \<longrightarrow>
                 step js M u w = None))
       \<and> (\<forall>t. position (calls w t) = AtLock \<longrightarrow> t \<notin> readers w \<and> writer w \<noteq> Some t)"
proof -
  have inv: "lock_invariant w"
    using lock_invariant_start assms by (rule lock_invariant_run)
  have a: "\<not> holds_write (calls w u) \<and> \<not> holds_read (calls w u)
           \<and> (position (calls w u) = AtRLock \<or> position (calls w u) = AtLock \<longrightarrow>
                step js M u w = None)"
    if "t \<noteq> u \<and> holds_write (calls w t)" for t u
  proof -
    from inv that have wt: "writer w = Some t"
      by (simp add: lock_invariant_def)
    with inv have nr: "readers w = {}"
      by (auto simp: lock_invariant_def)
    have "\<not> holds_write (calls w u)"
      using one_writer [OF inv] that by blast
    moreover have "\<not> holds_read (calls w u)"
      using inv nr by (simp add: lock_invariant_def)
    moreover have "position (calls w u) = AtRLock \<or> position (calls w u) = AtLock \<longrightarrow>
        step js M u w = None"
      using wt by (auto simp: step_def Let_def)
    ultimately show ?thesis by blast
  qed
  have b: "t \<notin> readers w \<and> writer w \<noteq> Some t" if "position (calls w t) = AtLock" for t
  proof -
    from that have "\<not> holds_read (calls w t)" "\<not> holds_write (calls w t)"
      by (simp_all add: holds_read_def holds_write_def)
    with inv show ?thesis by (simp add: lock_invariant_def)
  qed
  show ?thesis using a b by blast
qed

lemma run_get:
  assumes "position (calls w t) = AtRLock" "writer w = None" "t \<notin> readers w"
      and "backend_role js (shared w) (fd_name (call_fields (calls w t))) = Inr found"
      and "role_from_fields M (call_op (calls w t)) (role_or_new found)
             (call_fields (calls w t)) = Inr (resp, role)"
  shows "run js M [t, t, t] w =
           Some (w\<lparr>calls := (calls w)(t := (calls w t)
                   \<lparr>call_found := Inr found, position := AtLock,
                    call_role := (resp, role)\<rparr>)\<rparr>)"
  using assms by (simp add: step_def Let_def)

lemma run_put:
  assumes "position (calls w t) = AtLock" "writer w = None" "readers w = {}"
      and "accessor_put ''role'' (shared w) (Marshal js) (snd (call_role (calls w t)))
             [fd_name (call_fields (calls w t))] = (err, s')"
  shows "run js M [t, t, t] w =
           Some (w\<lparr>shared := s', writer := None,
                   calls := (calls w)(t := (calls w t)
                     \<lparr>call_result := Some (fst (call_role (calls w t)), err),
                      position := Returned\<rparr>)\<rparr>)"
  using assms by (simp add: step_def Let_def del: accessor_key.simps)

lemma run_append:
  "run js M (xs @ ys) w = (case run js M xs w of None \<Rightarrow> None | Some w' \<Rightarrow> run js M ys w')"
  by (induction xs arbitrary: w) (auto split: option.splits)

lemma get_runs:
  assumes "position (calls w t) = AtRLock" "writer w = None" "readers w = {}"
      and "backend_role js (shared w) (fd_name (call_fields (calls w t))) = Inr found"
      and "role_from_fields M (call_op (calls w t)) (role_or_new found)
             (call_fields (calls w t)) = Inr (resp, role)"
  shows "\<exists>w'. run js M [t, t, t] w = Some w'
           \<and> shared w' = shared w \<and> writer w' = None \<and> readers w' = {}
           \<and> (\<forall>u. u \<noteq> t \<longrightarrow> calls w' u = calls w u)
           \<and> position (calls w' t) = AtLock
           \<and> call_role (calls w' t) = (resp, role)
           \<and> call_fields (calls w' t) = call_fields (calls w t)"
proof -
  have "t \<notin> readers w" using assms(3) by simp
  from run_get [OF assms(1,2) this assms(4,5)] assms(2,3) show ?thesis
    by simp
qed

lemma put_runs:
  assumes "position (calls w t) = AtLock" "writer w = None" "readers w = {}"
      and "accessor_put ''role'' (shared w) (Marshal js) (snd (call_role (calls w t)))
             [fd_name (call_fields (calls w t))] = (err, s')"
  shows "\<exists>w'. run js M [t, t, t] w = Some w'
           \<and> shared w' = s' \<and> writer w' = None \<and> readers w' = {}
           \<and> (\<forall>u. u \<noteq> t \<longrightarrow> calls w' u = calls w u)
           \<and> position (calls w' t) = Returned
           \<and> call_result (calls w' t) = Some (fst (call_role (calls w t)), err)"
  using run_put [OF assms] assms(3) by simp

text \<open>A call that runs alone is \<open>pathRoleCreateUpdate\<close>: the same result, the same store.\<close>

lemma call_alone:
  assumes "requests t = (op, d)"
      and "backend_role js s (fd_name d) = Inr found"
      and "role_from_fields M op (role_or_new found) d = Inr (resp, role)"
  shows "\<exists>w. run js M [t, t, t, t, t, t] (start s requests) = Some w
           \<and> call_result (calls w t) = Some (fst (pathRoleCreateUpdate js M s op d))
           \<and> shared w = snd (pathRoleCreateUpdate js M s op d)"
proof -
  let ?w0 = "start s requests"
  have c0: "calls ?w0 t = new_call op d"
    by (simp add: start_def assms(1))
  have p0: "position (calls ?w0 t) = AtRLock" "writer ?w0 = None" "readers ?w0 = {}"
      "shared ?w0 = s" "call_fields (calls ?w0 t) = d" "call_op (calls ?w0 t) = op"
    by (simp_all add: c0 new_call_def) (simp_all add: start_def)
  obtain w1 where w1: "run js M [t, t, t] ?w0 = Some w1" "shared w1 = s" "writer w1 = None"
      "readers w1 = {}" "position (calls w1 t) = AtLock" "call_role (calls w1 t) = (resp, role)"
      "call_fields (calls w1 t) = d"
    using get_runs [of ?w0 t js found M resp role] p0 assms(2,3) by auto
  obtain err s' where put: "accessor_put ''role'' s (Marshal js) role [fd_name d] = (err, s')"
    by (cases "accessor_put ''role'' s (Marshal js) role [fd_name d]")
  obtain w2 where w2: "run js M [t, t, t] w1 = Some w2" "shared w2 = s'"
      "call_result (calls w2 t) = Some (resp, err)"
    using put_runs [of w1 t js err s' M] w1 put by (auto simp del: accessor_key.simps)
  have "run js M ([t, t, t] @ [t, t, t]) ?w0 = Some w2"
    unfolding run_append using w1(1) w2(1) by simp
  moreover have "pathRoleCreateUpdate js M s op d = ((resp, err), s')"
    using assms(2,3) put by (simp add: pathRoleCreateUpdate_def del: accessor_key.simps)
  ultimately show ?thesis using w2 by simp
qed

lemma update_fields:
  "fd_name approver_update = ''K8s-Admin''" "fd_name slack_update = ''K8s-Admin''"
  "fd_secret_path_method approver_update = None" "fd_secret_path_method slack_update = None"
  "fd_secret_data approver_update = None" "fd_secret_data slack_update = None"
  "fd_secret_ttl approver_update = None" "fd_secret_ttl slack_update = None"
  "fd_secret_max_ttl approver_update = None" "fd_secret_max_ttl slack_update = None"
  "fd_min_approvers approver_update = None" "fd_min_approvers slack_update = None"
  "fd_bound_approver_ids approver_update = Some [''carol'']"
  "fd_bound_approver_ids slack_update = None"
  "fd_notify_slack_channels approver_update = None"
  "fd_notify_slack_channels slack_update = Some [''#sre'']"
  by (simp_all add: approver_update_def slack_update_def path_only_request_def no_fields_def)

lemma update_of_stored_role:
  assumes "SecretPathMethod r = ''POST''" "MinApprovers r = 2"
      "SecretTTL r = seconds 3600" "SecretMaxTTL r = seconds 14400"
      "fd_secret_path_method d = None" "fd_secret_data d = None" "fd_secret_ttl d = None"
      "fd_secret_max_ttl d = None" "fd_min_approvers d = None"
  shows "\<exists>role. role_from_fields (seconds 86400) UpdateOperation (role_or_new (Some r)) d
            = Inr (None, role)
          \<and> SecretPathMethod role = ''POST'' \<and> MinApprovers role = 2
          \<and> SecretTTL role = seconds 3600 \<and> SecretMaxTTL role = seconds 14400
          \<and> BoundApproverIDs role = GetOk_or (fd_bound_approver_ids d) (BoundApproverIDs r)
          \<and> NotifySlackChannels role
              = GetOk_or (fd_notify_slack_channels d) (NotifySlackChannels r)"
proof -
  have eff: "effective_method (Some r) d = ''POST''" "effective_min_approvers (Some r) d = 2"
      "effective_ttl UpdateOperation (Some r) d = seconds 3600"
      "effective_max_ttl UpdateOperation (Some r) d = seconds 14400"
    using assms
    by (simp_all add: effective_method_def effective_min_approvers_def effective_ttl_def
          effective_max_ttl_def)
  show ?thesis
    unfolding role_from_fields_cases
    by (simp add: eff assms seconds_values block_fields role_or_new_fields)
qed

lemma put_on_admin_key:
  "accessor_put ''role'' (admin_store\<lparr>entries := [(''role/k8s-admin'', r)]\<rparr>)
     (Marshal plain_json) role [''K8s-Admin'']
   = (None, admin_store\<lparr>entries := [(''role/k8s-admin'', role)]\<rparr>)"
  by (simp add: accessor_put_def storage_Put_def admin_key plain_json_def admin_store_def
        empty_store_def del: accessor_key.simps)

lemma load_on_admin_key:
  "backend_role plain_json (admin_store\<lparr>entries := [(''role/k8s-admin'', r)]\<rparr>) ''K8s-Admin''
   = Inr (Some r)"
  by (simp add: backend_role_def accessor_get_def storage_Get_def admin_key plain_json_def
        admin_store_def empty_store_def del: accessor_key.simps)

lemma admin_store_entries:
  "admin_store = admin_store\<lparr>entries := [(''role/k8s-admin'', admin_role)]\<rparr>"
  by (simp add: admin_store_def)

lemma start_two_updates:
  "calls (start admin_store two_updates) 2 = new_call UpdateOperation approver_update"
  "calls (start admin_store two_updates) 3 = new_call UpdateOperation slack_update"
  "writer (start admin_store two_updates) = None"
  "readers (start admin_store two_updates) = {}"
  "shared (start admin_store two_updates) = admin_store"
  by (simp_all add: start_def two_updates_def)

lemma new_call_fields:
  "position (new_call op d) = AtRLock" "call_op (new_call op d) = op"
  "call_fields (new_call op d) = d"
  by (simp_all add: new_call_def)

text \<open>
  A second update between the get and the put of a first: after call 2 has done its get,
  call 3 runs its whole get and put; both report success, and the role that ends up in
  the store has the approvers of call 2 and the Slack channels from before call 3.
\<close>

lemma interleaved_updates:
  "\<exists>w1 w.
      run plain_json (seconds 86400) [2, 2, 2] (start admin_store two_updates) = Some w1
    \<and> position (calls w1 2) = AtLock
    \<and> run plain_json (seconds 86400) [3, 3, 3, 3, 3, 3] w1 \<noteq> None
    \<and> run plain_json (seconds 86400) [2, 2, 2, 3, 3, 3, 3, 3, 3, 2, 2, 2]
          (start admin_store two_updates) = Some w
    \<and> call_result (calls w 2) = Some (None, None)
    \<and> call_result (calls w 3) = Some (None, None)
    \<and> (\<exists>role. map_of (entries (shared w)) ''role/k8s-admin'' = Some role
           \<and> BoundApproverIDs role = [''carol'']
           \<and> NotifySlackChannels role = [''#ops''])"
proof -
  let ?M = "seconds 86400"
  let ?w0 = "start admin_store two_updates"
  obtain r1 where r1:
      "role_from_fields ?M UpdateOperation (role_or_new (Some admin_role)) approver_update
         = Inr (None, r1)"
      "BoundApproverIDs r1 = [''carol'']" "NotifySlackChannels r1 = [''#ops'']"
    using update_of_stored_role [of admin_role approver_update]
    by (auto simp: admin_role_fields update_fields GetOk_or_def)
  obtain r2 where r2:
      "role_from_fields ?M UpdateOperation (role_or_new (Some admin_role)) slack_update
         = Inr (None, r2)"
    using update_of_stored_role [of admin_role slack_update]
    by (auto simp: admin_role_fields update_fields GetOk_or_def)
  have load: "backend_role plain_json admin_store ''K8s-Admin'' = Inr (Some admin_role)"
    using load_on_admin_key [of admin_role] admin_store_entries by simp
  have g1: "position (calls ?w0 2) = AtRLock" "writer ?w0 = None" "readers ?w0 = {}"
      "backend_role plain_json (shared ?w0) (fd_name (call_fields (calls ?w0 2)))
         = Inr (Some admin_role)"
      "role_from_fields ?M (call_op (calls ?w0 2)) (role_or_new (Some admin_role))
         (call_fields (calls ?w0 2)) = Inr (None, r1)"
    by (simp_all add: start_two_updates new_call_fields update_fields load r1)
  from get_runs [OF g1] obtain w1 where w1: "run plain_json ?M [2, 2, 2] ?w0 = Some w1"
      "shared w1 = shared ?w0" "writer w1 = None" "readers w1 = {}"
      "\<forall>u. u \<noteq> 2 \<longrightarrow> calls w1 u = calls ?w0 u"
      "position (calls w1 2) = AtLock" "call_role (calls w1 2) = (None, r1)"
      "call_fields (calls w1 2) = call_fields (calls ?w0 2)"
    by blast
  have c3: "calls w1 3 = new_call UpdateOperation slack_update"
    using w1(5) by (simp add: start_two_updates)
  have g2: "position (calls w1 3) = AtRLock"
      "backend_role plain_json (shared w1) (fd_name (call_fields (calls w1 3)))
         = Inr (Some admin_role)"
      "role_from_fields ?M (call_op (calls w1 3)) (role_or_new (Some admin_role))
         (call_fields (calls w1 3)) = Inr (None, r2)"
    by (simp_all add: c3 w1(2) start_two_updates new_call_fields update_fields load r2)
  from get_runs [OF g2(1) w1(3) w1(4) g2(2) g2(3)] obtain w2 where
      w2: "run plain_json ?M [3, 3, 3] w1 = Some w2"
      "shared w2 = shared w1" "writer w2 = None" "readers w2 = {}"
      "\<forall>u. u \<noteq> 3 \<longrightarrow> calls w2 u = calls w1 u"
      "position (calls w2 3) = AtLock" "call_role (calls w2 3) = (None, r2)"
      "call_fields (calls w2 3) = call_fields (calls w1 3)"
    by blast
  have put2: "accessor_put ''role'' (shared w2) (Marshal plain_json)
        (snd (call_role (calls w2 3))) [fd_name (call_fields (calls w2 3))]
      = (None, admin_store\<lparr>entries := [(''role/k8s-admin'', r2)]\<rparr>)"
    using put_on_admin_key [of admin_role r2] admin_store_entries
    by (simp add: w2 w1(2) c3 start_two_updates new_call_fields update_fields
          del: accessor_key.simps)
  from put_runs [OF w2(6) w2(3) w2(4) put2] obtain w3 where
      w3: "run plain_json ?M [3, 3, 3] w2 = Some w3"
      "shared w3 = admin_store\<lparr>entries := [(''role/k8s-admin'', r2)]\<rparr>"
      "writer w3 = None" "readers w3 = {}"
      "\<forall>u. u \<noteq> 3 \<longrightarrow> calls w3 u = calls w2 u"
      "call_result (calls w3 3) = Some (fst (call_role (calls w2 3)), None)"
    by blast
  have c2: "calls w3 2 = calls w1 2"
    using w3(5) w2(5) by simp
  have f2: "call_fields (calls w1 2) = approver_update"
    by (simp add: w1(8) start_two_updates new_call_fields)
  have put1: "accessor_put ''role'' (shared w3) (Marshal plain_json)
        (snd (call_role (calls w3 2))) [fd_name (call_fields (calls w3 2))]
      = (None, admin_store\<lparr>entries := [(''role/k8s-admin'', r1)]\<rparr>)"
    using put_on_admin_key [of r2 r1]
    by (simp add: w3(2) c2 w1(7) f2 update_fields del: accessor_key.simps)
  have p1: "position (calls w3 2) = AtLock"
    by (simp add: c2 w1(6))
  from put_runs [OF p1 w3(3) w3(4) put1] obtain w4 where
      w4: "run plain_json ?M [2, 2, 2] w3 = Some w4"
      "shared w4 = admin_store\<lparr>entries := [(''role/k8s-admin'', r1)]\<rparr>"
      "\<forall>u. u \<noteq> 2 \<longrightarrow> calls w4 u = calls w3 u"
      "call_result (calls w4 2) = Some (fst (call_role (calls w3 2)), None)"
    by blast
  have between: "run plain_json ?M ([3, 3, 3] @ [3, 3, 3]) w1 = Some w3"
    unfolding run_append w2(1) using w3(1) by simp
  have "run plain_json ?M (([3, 3, 3] @ [3, 3, 3]) @ [2, 2, 2]) w1 = Some w4"
    unfolding run_append [of _ _ "[3, 3, 3] @ [3, 3, 3]"] between using w4(1) by simp
  then have "run plain_json ?M ([2, 2, 2] @ (([3, 3, 3] @ [3, 3, 3]) @ [2, 2, 2])) ?w0 = Some w4"
    unfolding run_append [of _ _ "[2, 2, 2]"] w1(1) by simp
  then have wh: "run plain_json ?M [2, 2, 2, 3, 3, 3, 3, 3, 3, 2, 2, 2] ?w0 = Some w4"
    by (simp del: run.simps)
  from between have b: "run plain_json ?M [3, 3, 3, 3, 3, 3] w1 \<noteq> None"
    by (simp del: run.simps)
  have res2: "call_result (calls w4 2) = Some (None, None)"
    by (simp add: w4(4) c2 w1(7))
  have res3: "call_result (calls w4 3) = Some (None, None)"
    using w4(3) by (simp add: w3(6) w2(7))
  have stored: "map_of (entries (shared w4)) ''role/k8s-admin'' = Some r1"
    by (simp add: w4(2))
  show ?thesis
    using w1(1) w1(6) b wh res2 res3 stored r1(2) r1(3) by blast
qed

lemma lock_runs:
  assumes "position (calls w t) = AtLock" "writer w = None" "readers w = {}"
  shows "\<exists>w'. run js M [t] w = Some w'
           \<and> (\<forall>u. u \<noteq> t \<longrightarrow> calls w' u = calls w u)
           \<and> position (calls w' t) = InPut"
  using assms by (simp add: step_def Let_def)

text \<open>The theorem of C5 at the moment call 3 is inside its put and call 2 waits for its own.\<close>

theorem accessor_operations_exclusive_witness:
  "\<exists>w. run plain_json (seconds 86400) [2, 2, 2, 3, 3, 3, 3]
          (start admin_store two_updates) = Some w
      \<and> holds_write (calls w 3)
      \<and> position (calls w 2) = AtLock
      \<and> \<not> holds_write (calls w 2) \<and> \<not> holds_read (calls w 2)
      \<and> step plain_json (seconds 86400) 2 w = None"
proof -
  let ?M = "seconds 86400"
  let ?w0 = "start admin_store two_updates"
  obtain r1 where r1:
      "role_from_fields ?M UpdateOperation (role_or_new (Some admin_role)) approver_update
         = Inr (None, r1)"
    using update_of_stored_role [of admin_role approver_update]
    by (auto simp: admin_role_fields update_fields GetOk_or_def)
  obtain r2 where r2:
      "role_from_fields ?M UpdateOperation (role_or_new (Some admin_role)) slack_update
         = Inr (None, r2)"
    using update_of_stored_role [of admin_role slack_update]
    by (auto simp: admin_role_fields update_fields GetOk_or_def)
  have load: "backend_role plain_json admin_store ''K8s-Admin'' = Inr (Some admin_role)"
    using load_on_admin_key [of admin_role] admin_store_entries by simp
  have g1: "position (calls ?w0 2) = AtRLock" "writer ?w0 = None" "readers ?w0 = {}"
      "backend_role plain_json (shared ?w0) (fd_name (call_fields (calls ?w0 2)))
         = Inr (Some admin_role)"
      "role_from_fields ?M (call_op (calls ?w0 2)) (role_or_new (Some admin_role))
         (call_fields (calls ?w0 2)) = Inr (None, r1)"
    by (simp_all add: start_two_updates new_call_fields update_fields load r1)
  from get_runs [OF g1] obtain w1 where w1: "run plain_json ?M [2, 2, 2] ?w0 = Some w1"
      "shared w1 = shared ?w0" "writer w1 = None" "readers w1 = {}"
      "\<forall>u. u \<noteq> 2 \<longrightarrow> calls w1 u = calls ?w0 u"
      "position (calls w1 2) = AtLock"
    by blast
  have c3: "calls w1 3 = new_call UpdateOperation slack_update"
    using w1(5) by (simp add: start_two_updates)
  have g2: "position (calls w1 3) = AtRLock"
      "backend_role plain_json (shared w1) (fd_name (call_fields (calls w1 3)))
         = Inr (Some admin_role)"
      "role_from_fields ?M (call_op (calls w1 3)) (role_or_new (Some admin_role))
         (call_fields (calls w1 3)) = Inr (None, r2)"
    by (simp_all add: c3 w1(2) start_two_updates new_call_fields update_fields load r2)
  from get_runs [OF g2(1) w1(3) w1(4) g2(2) g2(3)] obtain w2 where
      w2: "run plain_json ?M [3, 3, 3] w1 = Some w2"
      "writer w2 = None" "readers w2 = {}"
      "\<forall>u. u \<noteq> 3 \<longrightarrow> calls w2 u = calls w1 u"
      "position (calls w2 3) = AtLock"
    by blast
  from lock_runs [OF w2(5) w2(2) w2(3)] obtain w3 where
      w3: "run plain_json ?M [3] w2 = Some w3"
      "\<forall>u. u \<noteq> 3 \<longrightarrow> calls w3 u = calls w2 u"
      "position (calls w3 3) = InPut"
    by blast
  have "run plain_json ?M ([3, 3, 3] @ [3]) w1 = Some w3"
    unfolding run_append w2(1) using w3(1) by simp
  then have "run plain_json ?M ([2, 2, 2] @ ([3, 3, 3] @ [3])) ?w0 = Some w3"
    unfolding run_append [of _ _ "[2, 2, 2]"] w1(1) by simp
  then have whole: "run plain_json ?M [2, 2, 2, 3, 3, 3, 3] ?w0 = Some w3"
    by (simp del: run.simps)
  have hw: "holds_write (calls w3 3)"
    by (simp add: holds_write_def w3(3))
  have p2: "position (calls w3 2) = AtLock"
    using w3(2) w2(4) w1(6) by simp
  have ne: "(3 :: nat) \<noteq> 2"
    by simp
  from accessor_operations_exclusive [OF whole, THEN conjunct1] ne hw p2
  have "\<not> holds_write (calls w3 2) \<and> \<not> holds_read (calls w3 2)
      \<and> step plain_json ?M 2 w3 = None"
    by blast
  with whole hw p2 show ?thesis by blast
qed

lemma call_runs:
  assumes "position (calls w t) = AtRLock" "writer w = None" "readers w = {}"
      and "backend_role js (shared w) (fd_name (call_fields (calls w t))) = Inr found"
      and "role_from_fields M (call_op (calls w t)) (role_or_new found)
             (call_fields (calls w t)) = Inr (resp, role)"
      and "accessor_put ''role'' (shared w) (Marshal js) role
             [fd_name (call_fields (calls w t))] = (err, s')"
  shows "\<exists>w'. run js M [t, t, t, t, t, t] w = Some w'
           \<and> shared w' = s' \<and> writer w' = None \<and> readers w' = {}
           \<and> (\<forall>u. u \<noteq> t \<longrightarrow> calls w' u = calls w u)
           \<and> call_result (calls w' t) = Some (resp, err)"
proof -
  from get_runs [OF assms(1-5)] obtain w1 where w1: "run js M [t, t, t] w = Some w1"
      "shared w1 = shared w" "writer w1 = None" "readers w1 = {}"
      "\<forall>u. u \<noteq> t \<longrightarrow> calls w1 u = calls w u"
      "position (calls w1 t) = AtLock" "call_role (calls w1 t) = (resp, role)"
      "call_fields (calls w1 t) = call_fields (calls w t)"
    by blast
  have put: "accessor_put ''role'' (shared w1) (Marshal js) (snd (call_role (calls w1 t)))
        [fd_name (call_fields (calls w1 t))] = (err, s')"
    using assms(6) by (simp add: w1 del: accessor_key.simps)
  from put_runs [OF w1(6) w1(3) w1(4) put] obtain w2 where w2: "run js M [t, t, t] w1 = Some w2"
      "shared w2 = s'" "writer w2 = None" "readers w2 = {}"
      "\<forall>u. u \<noteq> t \<longrightarrow> calls w2 u = calls w1 u"
      "call_result (calls w2 t) = Some (fst (call_role (calls w1 t)), err)"
    by blast
  have "run js M ([t, t, t] @ [t, t, t]) w = Some w2"
    unfolding run_append w1(1) using w2(1) by simp
  then have "run js M [t, t, t, t, t, t] w = Some w2"
    by (simp del: run.simps)
  then show ?thesis using w1 w2 by auto
qed

text \<open>One after the other, in either order, the two updates both reach the store.\<close>

lemma updates_in_turn_keep_both:
  "\<exists>w. run plain_json (seconds 86400) [3, 3, 3, 3, 3, 3, 2, 2, 2, 2, 2, 2]
          (start admin_store two_updates) = Some w
      \<and> (\<exists>role. map_of (entries (shared w)) ''role/k8s-admin'' = Some role
             \<and> BoundApproverIDs role = [''carol'']
             \<and> NotifySlackChannels role = [''#sre''])"
  "\<exists>w. run plain_json (seconds 86400) [2, 2, 2, 2, 2, 2, 3, 3, 3, 3, 3, 3]
          (start admin_store two_updates) = Some w
      \<and> (\<exists>role. map_of (entries (shared w)) ''role/k8s-admin'' = Some role
             \<and> BoundApproverIDs role = [''carol'']
             \<and> NotifySlackChannels role = [''#sre''])"
proof -
  let ?M = "seconds 86400"
  let ?w0 = "start admin_store two_updates"
  have load: "backend_role plain_json admin_store ''K8s-Admin'' = Inr (Some admin_role)"
    using load_on_admin_key [of admin_role] admin_store_entries by simp
  have first_put: "accessor_put ''role'' admin_store (Marshal plain_json) role [''K8s-Admin'']
      = (None, admin_store\<lparr>entries := [(''role/k8s-admin'', role)]\<rparr>)" for role
    using put_on_admin_key [of admin_role role] admin_store_entries by simp
  obtain r1 where r1:
      "role_from_fields ?M UpdateOperation (role_or_new (Some admin_role)) approver_update
         = Inr (None, r1)"
      "SecretPathMethod r1 = ''POST''" "MinApprovers r1 = 2" "SecretTTL r1 = seconds 3600"
      "SecretMaxTTL r1 = seconds 14400"
      "BoundApproverIDs r1 = [''carol'']" "NotifySlackChannels r1 = [''#ops'']"
    using update_of_stored_role [of admin_role approver_update]
    by (auto simp: admin_role_fields update_fields GetOk_or_def)
  obtain r2 where r2:
      "role_from_fields ?M UpdateOperation (role_or_new (Some admin_role)) slack_update
         = Inr (None, r2)"
      "SecretPathMethod r2 = ''POST''" "MinApprovers r2 = 2" "SecretTTL r2 = seconds 3600"
      "SecretMaxTTL r2 = seconds 14400"
      "BoundApproverIDs r2 = [''gd40qy'', ''bc12po'']" "NotifySlackChannels r2 = [''#sre'']"
    using update_of_stored_role [of admin_role slack_update]
    by (auto simp: admin_role_fields update_fields GetOk_or_def)
  obtain r21 where r21:
      "role_from_fields ?M UpdateOperation (role_or_new (Some r2)) approver_update
         = Inr (None, r21)"
      "BoundApproverIDs r21 = [''carol'']" "NotifySlackChannels r21 = [''#sre'']"
    using update_of_stored_role [of r2 approver_update]
    by (auto simp: r2 update_fields GetOk_or_def)
  obtain r12 where r12:
      "role_from_fields ?M UpdateOperation (role_or_new (Some r1)) slack_update
         = Inr (None, r12)"
      "BoundApproverIDs r12 = [''carol'']" "NotifySlackChannels r12 = [''#sre'']"
    using update_of_stored_role [of r1 slack_update]
    by (auto simp: r1 update_fields GetOk_or_def)
  have s0: "writer ?w0 = None" "readers ?w0 = {}"
    by (simp_all add: start_two_updates)
  have a3: "position (calls ?w0 3) = AtRLock"
      "backend_role plain_json (shared ?w0) (fd_name (call_fields (calls ?w0 3)))
         = Inr (Some admin_role)"
      "role_from_fields ?M (call_op (calls ?w0 3)) (role_or_new (Some admin_role))
         (call_fields (calls ?w0 3)) = Inr (None, r2)"
      "accessor_put ''role'' (shared ?w0) (Marshal plain_json) r2
         [fd_name (call_fields (calls ?w0 3))]
         = (None, admin_store\<lparr>entries := [(''role/k8s-admin'', r2)]\<rparr>)"
    by (simp_all add: start_two_updates new_call_fields update_fields load r2 first_put
          del: accessor_key.simps)
  from call_runs [OF a3(1) s0 a3(2,3,4)] obtain w3 where
      w3: "run plain_json ?M [3, 3, 3, 3, 3, 3] ?w0 = Some w3"
      "shared w3 = admin_store\<lparr>entries := [(''role/k8s-admin'', r2)]\<rparr>"
      "writer w3 = None" "readers w3 = {}" "\<forall>u. u \<noteq> 3 \<longrightarrow> calls w3 u = calls ?w0 u"
    by blast
  have c2: "calls w3 2 = new_call UpdateOperation approver_update"
    using w3(5) by (simp add: start_two_updates)
  have a2: "position (calls w3 2) = AtRLock"
      "backend_role plain_json (shared w3) (fd_name (call_fields (calls w3 2))) = Inr (Some r2)"
      "role_from_fields ?M (call_op (calls w3 2)) (role_or_new (Some r2))
         (call_fields (calls w3 2)) = Inr (None, r21)"
      "accessor_put ''role'' (shared w3) (Marshal plain_json) r21
         [fd_name (call_fields (calls w3 2))]
         = (None, admin_store\<lparr>entries := [(''role/k8s-admin'', r21)]\<rparr>)"
    by (simp_all add: c2 w3(2) new_call_fields update_fields load_on_admin_key r21
          put_on_admin_key del: accessor_key.simps)
  from call_runs [OF a2(1) w3(3,4) a2(2,3,4)] obtain w32 where
      w32: "run plain_json ?M [2, 2, 2, 2, 2, 2] w3 = Some w32"
      "shared w32 = admin_store\<lparr>entries := [(''role/k8s-admin'', r21)]\<rparr>"
    by blast
  have "run plain_json ?M ([3, 3, 3, 3, 3, 3] @ [2, 2, 2, 2, 2, 2]) ?w0 = Some w32"
    unfolding run_append w3(1) using w32(1) by simp
  then have "run plain_json ?M [3, 3, 3, 3, 3, 3, 2, 2, 2, 2, 2, 2] ?w0 = Some w32"
    by (simp del: run.simps)
  moreover have "map_of (entries (shared w32)) ''role/k8s-admin'' = Some r21"
    by (simp add: w32(2))
  ultimately show "\<exists>w. run plain_json ?M [3, 3, 3, 3, 3, 3, 2, 2, 2, 2, 2, 2] ?w0 = Some w
      \<and> (\<exists>role. map_of (entries (shared w)) ''role/k8s-admin'' = Some role
             \<and> BoundApproverIDs role = [''carol'']
             \<and> NotifySlackChannels role = [''#sre''])"
    using r21(2,3) by blast
  have b2: "position (calls ?w0 2) = AtRLock"
      "backend_role plain_json (shared ?w0) (fd_name (call_fields (calls ?w0 2)))
         = Inr (Some admin_role)"
      "role_from_fields ?M (call_op (calls ?w0 2)) (role_or_new (Some admin_role))
         (call_fields (calls ?w0 2)) = Inr (None, r1)"
      "accessor_put ''role'' (shared ?w0) (Marshal plain_json) r1
         [fd_name (call_fields (calls ?w0 2))]
         = (None, admin_store\<lparr>entries := [(''role/k8s-admin'', r1)]\<rparr>)"
    by (simp_all add: start_two_updates new_call_fields update_fields load r1 first_put
          del: accessor_key.simps)
  from call_runs [OF b2(1) s0 b2(2,3,4)] obtain w2 where
      w2: "run plain_json ?M [2, 2, 2, 2, 2, 2] ?w0 = Some w2"
      "shared w2 = admin_store\<lparr>entries := [(''role/k8s-admin'', r1)]\<rparr>"
      "writer w2 = None" "readers w2 = {}" "\<forall>u. u \<noteq> 2 \<longrightarrow> calls w2 u = calls ?w0 u"
    by blast
  have c3: "calls w2 3 = new_call UpdateOperation slack_update"
    using w2(5) by (simp add: start_two_updates)
  have b3: "position (calls w2 3) = AtRLock"
      "backend_role plain_json (shared w2) (fd_name (call_fields (calls w2 3))) = Inr (Some r1)"
      "role_from_fields ?M (call_op (calls w2 3)) (role_or_new (Some r1))
         (call_fields (calls w2 3)) = Inr (None, r12)"
      "accessor_put ''role'' (shared w2) (Marshal plain_json) r12
         [fd_name (call_fields (calls w2 3))]
         = (None, admin_store\<lparr>entries := [(''role/k8s-admin'', r12)]\<rparr>)"
    by (simp_all add: c3 w2(2) new_call_fields update_fields load_on_admin_key r12
          put_on_admin_key del: accessor_key.simps)
  from call_runs [OF b3(1) w2(3,4) b3(2,3,4)] obtain w23 where
      w23: "run plain_json ?M [3, 3, 3, 3, 3, 3] w2 = Some w23"
      "shared w23 = admin_store\<lparr>entries := [(''role/k8s-admin'', r12)]\<rparr>"
    by blast
  have "run plain_json ?M ([2, 2, 2, 2, 2, 2] @ [3, 3, 3, 3, 3, 3]) ?w0 = Some w23"
    unfolding run_append w2(1) using w23(1) by simp
  then have "run plain_json ?M [2, 2, 2, 2, 2, 2, 3, 3, 3, 3, 3, 3] ?w0 = Some w23"
    by (simp del: run.simps)
  moreover have "map_of (entries (shared w23)) ''role/k8s-admin'' = Some r12"
    by (simp add: w23(2))
  ultimately show "\<exists>w. run plain_json ?M [2, 2, 2, 2, 2, 2, 3, 3, 3, 3, 3, 3] ?w0 = Some w
      \<and> (\<exists>role. map_of (entries (shared w)) ''role/k8s-admin'' = Some role
             \<and> BoundApproverIDs role = [''carol'']
             \<and> NotifySlackChannels role = [''#sre''])"
    using r12(2,3) by blast
qed

text \<open>
  C5, as stated, fails. After call 2 has done its get and before it does its put, call 3
  can run its whole get and put on the same namespace; in that schedule both calls
  report success and the stored role keeps the Slack channels from before call 3, while
  the two calls one after the other, in either order, leave the channels of call 3: the
  update of call 3 is lost.
\<close>

theorem update_lost_between_get_and_put:
  "after [2, 2, 2] \<noteq> None
   \<and> position (calls (the (after [2, 2, 2])) 2) = AtLock
   \<and> run plain_json (seconds 86400) [3, 3, 3, 3, 3, 3] (the (after [2, 2, 2])) \<noteq> None
   \<and> after [2, 2, 2, 3, 3, 3, 3, 3, 3, 2, 2, 2] \<noteq> None
   \<and> call_result (calls (the (after [2, 2, 2, 3, 3, 3, 3, 3, 3, 2, 2, 2])) 2)
        = Some (None, None)
   \<and> call_result (calls (the (after [2, 2, 2, 3, 3, 3, 3, 3, 3, 2, 2, 2])) 3)
        = Some (None, None)
   \<and> map_option NotifySlackChannels
        (map_of (entries (shared (the (after [2, 2, 2, 3, 3, 3, 3, 3, 3, 2, 2, 2]))))
           ''role/k8s-admin'') = Some [''#ops'']
   \<and> map_option NotifySlackChannels
        (map_of (entries (shared (the (after [2, 2, 2, 2, 2, 2, 3, 3, 3, 3, 3, 3]))))
           ''role/k8s-admin'') = Some [''#sre'']
   \<and> map_option NotifySlackChannels
        (map_of (entries (shared (the (after [3, 3, 3, 3, 3, 3, 2, 2, 2, 2, 2, 2]))))
           ''role/k8s-admin'') = Some [''#sre'']"
proof -
  obtain w1 w where a: "after [2, 2, 2] = Some w1" "position (calls w1 2) = AtLock"
      "run plain_json (seconds 86400) [3, 3, 3, 3, 3, 3] w1 \<noteq> None"
      "after [2, 2, 2, 3, 3, 3, 3, 3, 3, 2, 2, 2] = Some w"
      "call_result (calls w 2) = Some (None, None)"
      "call_result (calls w 3) = Some (None, None)"
      "map_option NotifySlackChannels (map_of (entries (shared w)) ''role/k8s-admin'')
         = Some [''#ops'']"
    using interleaved_updates unfolding after_def by force
  obtain w23 where b: "after [2, 2, 2, 2, 2, 2, 3, 3, 3, 3, 3, 3] = Some w23"
      "map_option NotifySlackChannels (map_of (entries (shared w23)) ''role/k8s-admin'')
         = Some [''#sre'']"
    using updates_in_turn_keep_both(2) unfolding after_def by force
  obtain w32 where c: "after [3, 3, 3, 3, 3, 3, 2, 2, 2, 2, 2, 2] = Some w32"
      "map_option NotifySlackChannels (map_of (entries (shared w32)) ''role/k8s-admin'')
         = Some [''#sre'']"
    using updates_in_turn_keep_both(1) unfolding after_def by force
  show ?thesis
    by (simp add: a b c del: run.simps)
qed

end
